theory Spec2Isabelle
  imports Complex_Main "HOL-Library.Log_Nat"
begin

section \<open>Event ingestion: normalization, deduplication, aggregation\<close>

text \<open>
  A shallow embedding of the ingestion pipeline of the repository:
  \<^verbatim>\<open>services/normalizationService.js\<close>, \<^verbatim>\<open>services/deduplicationService.js\<close>,
  \<^verbatim>\<open>services/eventProcessingService.js\<close>, \<^verbatim>\<open>models/Event.js\<close>,
  \<^verbatim>\<open>models/DeduplicationRecord.js\<close>, \<^verbatim>\<open>storage/fileStorage.js\<close> and the
  aggregation route.

  Conventions of the embedding.
  \<^item> A JavaScript number is the exact rational value (\<open>rat\<close>) of a binary64 number; \<open>NaN\<close>
    and the infinities are not represented, \<open>parseFloat\<close> returning \<open>NaN\<close> is \<open>None\<close>. The
    product that \<open>parseDate\<close> forms is rounded as the platform rounds it (\<open>binary64\<close>
    below), since the instant depends on it; the value that \<open>parseFloat\<close> reads and the sums
    of the aggregation are exact.
  \<^item> A \<open>Date\<close> object is an \<open>int option\<close>: \<open>Some ms\<close> is the instant in milliseconds
    since the epoch, \<open>None\<close> is an Invalid Date.
  \<^item> A string is a list of code units below 256, a \<open>char\<close> standing for the code unit of
    its number (\<open>CHR 0xA0\<close> is \<open>U+00A0\<close>); strings with other code units are not
    represented. The white space of this range is the ASCII white space and the no-break
    space.
  \<^item> \<open>undefined\<close> and \<open>null\<close> results of a lookup are \<open>None\<close> of an option type.
  \<^item> A thrown \<open>Error\<close> is a value of type \<open>failure\<close> on the left of a sum.
  \<^item> Built-ins of the platform whose output no operation here inspects (the SHA-256 digest,
    the renderings of numbers and dates, the parser of date strings) are fields of a
    \<open>runtime\<close> record handed to every function that calls them.
  \<^item> What a call reads from its environment (the clock, \<open>Math.random\<close>, \<open>crypto.randomUUID\<close>,
    whether a file write fails) is a field of an \<open>ambient\<close> record, one per call of
    \<open>processEvent\<close>.
\<close>

subsection \<open>JSON values\<close>

datatype json =
    JNull
  | JBool bool
  | JNum rat
  | JStr string
  | JArr "json list"
  | JObj "(string \<times> json) list"

text \<open>
  \<open>JObj\<close> lists the own properties of a parsed object, one entry per key.
  \<open>getField v k\<close> is the member access \<^verbatim>\<open>v[k]\<close> on a value other than \<open>null\<close>, for the
  field names the services use: none of them is a property of a string, number, boolean or
  array, so the access is \<open>undefined\<close> there.
\<close>

fun getField :: "json \<Rightarrow> string \<Rightarrow> json option" where
  "getField (JObj kvs) k = map_of kvs k"
| "getField _ k = None"

text \<open>\<^verbatim>\<open>x !== undefined && x !== null\<close>\<close>

fun present :: "json option \<Rightarrow> bool" where
  "present None = False"
| "present (Some v) = (v \<noteq> JNull)"

text \<open>JavaScript truthiness of a value.\<close>

fun truthy :: "json \<Rightarrow> bool" where
  "truthy JNull = False"
| "truthy (JBool b) = b"
| "truthy (JNum x) = (x \<noteq> 0)"
| "truthy (JStr s) = (s \<noteq> [])"
| "truthy (JArr xs) = True"
| "truthy (JObj kvs) = True"

text \<open>\<^verbatim>\<open>payload.payload && typeof payload.payload === 'object'\<close>: the nested value when it is
  an object or an array.\<close>

definition nestedPayload :: "json \<Rightarrow> json option" where
  "nestedPayload p =
     (case getField p ''payload'' of
        Some (JObj kvs) \<Rightarrow> Some (JObj kvs)
      | Some (JArr xs) \<Rightarrow> Some (JArr xs)
      | _ \<Rightarrow> None)"

text \<open>The first field of the list whose value is neither \<open>undefined\<close> nor \<open>null\<close>.\<close>

fun firstPresent :: "json \<Rightarrow> string list \<Rightarrow> json option" where
  "firstPresent p [] = None"
| "firstPresent p (f # fs) = (if present (getField p f) then getField p f else firstPresent p fs)"

subsection \<open>Errors and the platform\<close>

datatype failure =
    ClientIdNotFound
  | AmountNotFound
  | NullDereference
  | NotPrimitive
  | SimulatedFailure
  | WriteFailed

text \<open>\<open>error.message\<close>. The first two and the fifth are the literals of the source; the others
  are raised by the platform (reading a property of \<open>null\<close>, converting an object whose
  \<open>toString\<close> is not callable, a failing \<open>fs.writeFile\<close>, whose text is the operating
  system's: a fixed text stands for it).\<close>

fun message :: "failure \<Rightarrow> string" where
  "message ClientIdNotFound = ''client_id not found in event''"
| "message AmountNotFound = ''amount not found or invalid in event''"
| "message NullDereference = ''Cannot read properties of null (reading 'payload')''"
| "message NotPrimitive = ''Cannot convert object to primitive value''"
| "message SimulatedFailure = ''Simulated database failure''"
| "message WriteFailed = ''write failed''"

record runtime =
  sha256 :: "string \<Rightarrow> string"
  Number_toString :: "rat \<Rightarrow> string"
  Date_toString :: "int \<Rightarrow> string"
  Date_parse :: "string \<Rightarrow> int option"

text \<open>
  \<open>sha256\<close> is \<^verbatim>\<open>crypto.createHash('sha256').update(s).digest('hex')\<close>;
  \<open>Number_toString\<close> and \<open>Date_toString\<close> are what a template literal inserts for a number and
  for a valid \<open>Date\<close>; \<open>Date_parse s\<close> is the time value of \<^verbatim>\<open>new Date(s)\<close> for a string.
\<close>

text \<open>\<^verbatim>\<open>new Date(t)\<close> for a number: the time value is clipped, an argument beyond
  \<open>8.64e15\<close> milliseconds gives an Invalid Date, any other is truncated towards zero.\<close>

definition new_Date :: "rat \<Rightarrow> int option" where
  "new_Date t =
     (if \<bar>t\<bar> > 8640000000000000 then None
      else Some (if 0 \<le> t then \<lfloor>t\<rfloor> else \<lceil>t\<rceil>))"

text \<open>
  Arithmetic on numbers is binary64: the exact result is rounded to the nearest number with
  a significand of 53 bits, a tie going to the even significand. \<open>ilog2 x\<close> is the exponent
  of the leading bit of a positive \<open>x\<close> (\<open>bitlen\<close> counts the binary digits of an integer),
  \<open>roundHalfEven\<close> rounds the significand, scaled to an integer of 53 bits. The
  exponent is not bounded here: a result that overflows to an infinity on the platform is a
  rational beyond every time value, one in the subnormal range is below 1 in magnitude, and
  \<open>new_Date\<close> maps both as the platform maps the infinity (Invalid Date) and the subnormal
  (the instant 0).
\<close>

definition pow2 :: "int \<Rightarrow> rat" where
  "pow2 e = (if 0 \<le> e then 2 ^ nat e else 1 / 2 ^ nat (- e))"

definition ilog2 :: "rat \<Rightarrow> int" where
  "ilog2 x =
     (let (p, q) = quotient_of x;
          d = bitlen p - bitlen q
      in if pow2 d \<le> x then d else d - 1)"

definition roundHalfEven :: "rat \<Rightarrow> int" where
  "roundHalfEven y =
     (let f = \<lfloor>y\<rfloor>; r = y - of_int f
      in if r < 1 / 2 then f else if 1 / 2 < r then f + 1 else if even f then f else f + 1)"

definition binary64 :: "rat \<Rightarrow> rat" where
  "binary64 x =
     (if x = 0 then 0
      else let e = ilog2 \<bar>x\<bar> - 52; m = roundHalfEven (\<bar>x\<bar> / pow2 e)
           in sgn x * of_int m * pow2 e)"

subsection \<open>Strings\<close>

text \<open>The white space that \<^verbatim>\<open>String.prototype.trim\<close> strips, among the code units below 256:
  tab, line feed, vertical tab, form feed, carriage return, space and no-break space.\<close>

definition isSpace :: "char \<Rightarrow> bool" where
  "isSpace c =
     (c \<in> set [CHR 0x09, CHR 0x0A, CHR 0x0B, CHR 0x0C, CHR 0x0D, CHR '' '', CHR 0xA0])"

definition trim :: "string \<Rightarrow> string" where
  "trim s = rev (dropWhile isSpace (rev (dropWhile isSpace s)))"

definition isDigit :: "char \<Rightarrow> bool" where
  "isDigit c = (c \<in> set ''0123456789'')"

text \<open>\<^verbatim>\<open>String(v)\<close>. An array is joined with commas, \<open>null\<close> elements rendered empty; a plain
  object is \<^verbatim>\<open>[object Object]\<close> unless an own property hides \<open>toString\<close>, in which case the
  conversion throws.\<close>

fun toStr :: "runtime \<Rightarrow> json \<Rightarrow> failure + string"
  and joinStr :: "runtime \<Rightarrow> json list \<Rightarrow> failure + string"
where
  "toStr rt JNull = Inr ''null''"
| "toStr rt (JBool b) = Inr (if b then ''true'' else ''false'')"
| "toStr rt (JNum x) = Inr (Number_toString rt x)"
| "toStr rt (JStr s) = Inr s"
| "toStr rt (JArr xs) = joinStr rt xs"
| "toStr rt (JObj kvs) =
     (if ''toString'' \<in> set (map fst kvs) then Inl NotPrimitive else Inr ''[object Object]'')"
| "joinStr rt [] = Inr []"
| "joinStr rt (x # xs) =
     (case (if x = JNull then Inr [] else toStr rt x) of
        Inl e \<Rightarrow> Inl e
      | Inr s \<Rightarrow>
          (if xs = [] then Inr s
           else (case joinStr rt xs of Inl e \<Rightarrow> Inl e | Inr t \<Rightarrow> Inr (s @ '','' @ t))))"

text \<open>\<^verbatim>\<open>String(v).trim()\<close>\<close>

definition trimmedString :: "runtime \<Rightarrow> json \<Rightarrow> failure + string" where
  "trimmedString rt v = (case toStr rt v of Inl e \<Rightarrow> Inl e | Inr s \<Rightarrow> Inr (trim s))"

lemma nestedPayload_size: "nestedPayload p = Some q \<Longrightarrow> size q < size p"
proof (cases p)
  case (JObj kvs)
  assume n: "nestedPayload p = Some q"
  from n JObj have "map_of kvs ''payload'' = Some q"
    by (auto simp: nestedPayload_def split: option.splits json.splits)
  then have "(''payload'', q) \<in> set kvs"
    by (rule map_of_SomeD)
  then have "size q < Suc (size_list (size_prod (\<lambda>_. 0) size) kvs)"
    by (induction kvs) auto
  with JObj show ?thesis by simp
qed (auto simp: nestedPayload_def)

subsection \<open>Canonical fields\<close>

record canonical =
  clientId :: string
  metric :: string
  amount :: rat
  timestamp :: int

record normalized = canonical +
  eventHash :: string

text \<open>What a call of the pipeline reads from its environment. \<open>now\<close> is the clock in
  milliseconds (every \<^verbatim>\<open>new Date()\<close> and \<^verbatim>\<open>Date.now()\<close> of one call reads the same
  value), \<open>random\<close> is \<^verbatim>\<open>Math.random()\<close>, \<open>randomUUID k\<close> is the result of the \<open>k\<close>-th call of
  \<^verbatim>\<open>crypto.randomUUID()\<close>, and \<open>writeFails w\<close> tells whether the file write of the storage
  operation \<open>w\<close> throws.\<close>

datatype write_op = SaveEvent | RegisterIdentity | DeleteEvent | SaveFailedEvent

record ambient =
  now :: int
  random :: rat
  randomUUID :: "nat \<Rightarrow> string"
  writeFails :: "write_op \<Rightarrow> bool"

subsection \<open>normalizationService.js\<close>

definition hashInput :: "runtime \<Rightarrow> 'a canonical_scheme \<Rightarrow> string" where
  "hashInput rt n =
     clientId n @ ''|'' @ metric n @ ''|'' @ Number_toString rt (amount n) @ ''|'' @
     Date_toString rt (timestamp n)"

definition generateEventHash :: "runtime \<Rightarrow> 'a canonical_scheme \<Rightarrow> string" where
  "generateEventHash rt n = sha256 rt (hashInput rt n)"

definition clientIdFields :: "string list" where
  "clientIdFields = [''source'', ''client_id'', ''clientId'', ''client'', ''origin'']"

definition metricFields :: "string list" where
  "metricFields = [''metric'', ''event_type'', ''type'', ''eventType'', ''name'']"

definition amountFields :: "string list" where
  "amountFields = [''amount'', ''value'', ''count'', ''quantity'', ''total'', ''price'']"

definition timestampFields :: "string list" where
  "timestampFields = [''timestamp'', ''time'', ''date'', ''created_at'', ''createdAt'', ''ts'']"

function extractClientId :: "runtime \<Rightarrow> json \<Rightarrow> failure + string" where
  "extractClientId rt p =
     (case firstPresent p clientIdFields of
        Some v \<Rightarrow> trimmedString rt v
      | None \<Rightarrow>
          (case nestedPayload p of
             None \<Rightarrow> Inl ClientIdNotFound
           | Some q \<Rightarrow>
               (case extractClientId rt q of
                  Inl e \<Rightarrow> Inl e
                | Inr s \<Rightarrow> if s \<noteq> [] then Inr s else Inl ClientIdNotFound)))"
  by pat_completeness auto
termination
  by (relation "measure (\<lambda>(rt, p). size p)") (auto dest: nestedPayload_size)

function extractMetric :: "runtime \<Rightarrow> json \<Rightarrow> failure + string" where
  "extractMetric rt p =
     (case firstPresent p metricFields of
        Some v \<Rightarrow> trimmedString rt v
      | None \<Rightarrow>
          (case nestedPayload p of
             None \<Rightarrow> Inr ''unknown''
           | Some q \<Rightarrow>
               (case extractMetric rt q of
                  Inl e \<Rightarrow> Inl e
                | Inr s \<Rightarrow> if s \<noteq> [] \<and> s \<noteq> ''unknown'' then Inr s else Inr ''unknown'')))"
  by pat_completeness auto
termination
  by (relation "measure (\<lambda>(rt, p). size p)") (auto dest: nestedPayload_size)

text \<open>\<^verbatim>\<open>value.replace(/[^\d.-]/g, '')\<close>\<close>

definition stripNonNumeric :: "string \<Rightarrow> string" where
  "stripNonNumeric s = filter (\<lambda>c. isDigit c \<or> c = CHR ''.'' \<or> c = CHR ''-'') s"

definition digitVal :: "char \<Rightarrow> nat" where
  "digitVal c = of_char c - of_char CHR ''0''"

definition digitsVal :: "string \<Rightarrow> nat" where
  "digitsVal ds = foldl (\<lambda>n c. 10 * n + digitVal c) 0 ds"

text \<open>\<^verbatim>\<open>parseFloat\<close> on a string of digits, \<open>.\<close> and \<open>-\<close> (all that the replacement leaves):
  an optional minus sign, digits, an optional point and digits; the longest such prefix is
  the number, and a prefix without any digit is \<open>NaN\<close>.\<close>

definition parseFloat :: "string \<Rightarrow> rat option" where
  "parseFloat s =
     (let neg = (s \<noteq> [] \<and> hd s = CHR ''-'');
          u = (if neg then tl s else s);
          ip = takeWhile isDigit u;
          r = dropWhile isDigit u;
          fp = (if r \<noteq> [] \<and> hd r = CHR ''.'' then takeWhile isDigit (tl r) else []);
          m = of_nat (digitsVal ip) + of_nat (digitsVal fp) / 10 ^ length fp
      in if ip = [] \<and> fp = [] then None else Some (if neg then - m else m))"

text \<open>What one field contributes: a string is stripped and parsed, a number passes.\<close>

fun amountOf :: "json \<Rightarrow> rat option" where
  "amountOf (JStr s) = parseFloat (stripNonNumeric s)"
| "amountOf (JNum x) = Some x"
| "amountOf _ = None"

fun scanAmount :: "json \<Rightarrow> string list \<Rightarrow> rat option" where
  "scanAmount p [] = None"
| "scanAmount p (f # fs) =
     (case getField p f of
        None \<Rightarrow> scanAmount p fs
      | Some v \<Rightarrow> (case amountOf v of Some x \<Rightarrow> Some x | None \<Rightarrow> scanAmount p fs))"

function extractAmount :: "json \<Rightarrow> failure + rat" where
  "extractAmount p =
     (case scanAmount p amountFields of
        Some x \<Rightarrow> Inr x
      | None \<Rightarrow>
          (case nestedPayload p of
             None \<Rightarrow> Inl AmountNotFound
           | Some q \<Rightarrow> extractAmount q))"
  by pat_completeness auto
termination
  by (relation "measure size") (auto dest: nestedPayload_size)

text \<open>
  The three patterns that \<open>parseDate\<close> tries on a string that the platform's parser refuses:
  \<^verbatim>\<open>/(\d{4})\/(\d{1,2})\/(\d{1,2})/\<close>, \<^verbatim>\<open>/(\d{4})-(\d{1,2})-(\d{1,2})/\<close> and
  \<^verbatim>\<open>/(\d{1,2})\/(\d{1,2})\/(\d{4})/\<close>. A group \<^verbatim>\<open>\d{1,2}\<close> that is followed by a separator
  takes two digits when two are there: giving one back cannot help, the next character
  being a digit. \<open>searchFrom m s\<close> is the leftmost match of an unanchored pattern.
\<close>

definition digitRun :: "nat \<Rightarrow> string \<Rightarrow> string" where
  "digitRun n s = takeWhile isDigit (take n s)"

text \<open>\<open>digitGroup sep s\<close>: one or two digits, then the separator; the digits and the rest.\<close>

definition digitGroup :: "char \<Rightarrow> string \<Rightarrow> (string \<times> string) option" where
  "digitGroup sep s =
     (let g = digitRun 2 s; r = drop (length g) s
      in if g \<noteq> [] \<and> r \<noteq> [] \<and> hd r = sep then Some (g, tl r) else None)"

text \<open>Year first: the result is (year, month, day).\<close>

definition matchYMD :: "char \<Rightarrow> string \<Rightarrow> (string \<times> string \<times> string) option" where
  "matchYMD sep s =
     (let y = digitRun 4 s; r = drop 4 s
      in if length y = 4 \<and> r \<noteq> [] \<and> hd r = sep then
           (case digitGroup sep (tl r) of
              None \<Rightarrow> None
            | Some (m, r') \<Rightarrow>
                (let d = digitRun 2 r' in if d \<noteq> [] then Some (y, m, d) else None))
         else None)"

text \<open>Year last: the first group is the month, the second the day.\<close>

definition matchMDY :: "string \<Rightarrow> (string \<times> string \<times> string) option" where
  "matchMDY s =
     (case digitGroup CHR ''/'' s of
        None \<Rightarrow> None
      | Some (m, r) \<Rightarrow>
          (case digitGroup CHR ''/'' r of
             None \<Rightarrow> None
           | Some (d, r') \<Rightarrow>
               (let y = digitRun 4 r' in if length y = 4 then Some (y, m, d) else None)))"

fun searchFrom :: "(string \<Rightarrow> 'a option) \<Rightarrow> string \<Rightarrow> 'a option" where
  "searchFrom m [] = m []"
| "searchFrom m (c # cs) = (case m (c # cs) of Some r \<Rightarrow> Some r | None \<Rightarrow> searchFrom m cs)"

text \<open>\<^verbatim>\<open>s.padStart(2, '0')\<close>\<close>

definition padStart2 :: "string \<Rightarrow> string" where
  "padStart2 s = replicate (2 - length s) CHR ''0'' @ s"

definition dateFormats :: "(string \<Rightarrow> (string \<times> string \<times> string) option) list" where
  "dateFormats = [matchYMD CHR ''/'', matchYMD CHR ''-'', matchMDY]"

text \<open>The loop over the formats: the first whose rebuilt \<open>YYYY-MM-DD\<close> text parses wins.\<close>

fun tryFormats ::
  "runtime \<Rightarrow> (string \<Rightarrow> (string \<times> string \<times> string) option) list \<Rightarrow> string \<Rightarrow> int option"
where
  "tryFormats rt [] s = None"
| "tryFormats rt (f # fs) s =
     (case searchFrom f s of
        None \<Rightarrow> tryFormats rt fs s
      | Some (y, m, d) \<Rightarrow>
          (case Date_parse rt (y @ ''-'' @ padStart2 m @ ''-'' @ padStart2 d) of
             Some t \<Rightarrow> Some t
           | None \<Rightarrow> tryFormats rt fs s))"

text \<open>\<open>parseDate\<close> returns a \<open>Date\<close>, possibly invalid, or \<open>null\<close> (the outer \<open>None\<close>). A JSON
  value is never a \<open>Date\<close> instance, so the first test of the source never fires. The number
  \<open>d\<close> that the source holds is the binary64 value of the literal, and \<^verbatim>\<open>value * 1000\<close> is
  the rounded product.\<close>

fun parseDate :: "runtime \<Rightarrow> json \<Rightarrow> int option option" where
  "parseDate rt (JNum v) =
     (let d = binary64 v
      in if d < 10000000000 then Some (new_Date (binary64 (d * 1000))) else Some (new_Date d))"
| "parseDate rt (JStr s) =
     (case Date_parse rt s of
        Some t \<Rightarrow> Some (Some t)
      | None \<Rightarrow> (case tryFormats rt dateFormats s of Some t \<Rightarrow> Some (Some t) | None \<Rightarrow> None))"
| "parseDate rt _ = None"

fun scanTimestamp :: "runtime \<Rightarrow> json \<Rightarrow> string list \<Rightarrow> int option" where
  "scanTimestamp rt p [] = None"
| "scanTimestamp rt p (f # fs) =
     (case getField p f of
        None \<Rightarrow> scanTimestamp rt p fs
      | Some v \<Rightarrow>
          (if v = JNull then scanTimestamp rt p fs
           else (case parseDate rt v of
                   Some (Some t) \<Rightarrow> Some t
                 | _ \<Rightarrow> scanTimestamp rt p fs)))"

text \<open>The result is always a valid date: a field's, the nested payload's, or the clock.\<close>

function extractTimestamp :: "runtime \<Rightarrow> int \<Rightarrow> json \<Rightarrow> int" where
  "extractTimestamp rt clock p =
     (case scanTimestamp rt p timestampFields of
        Some t \<Rightarrow> t
      | None \<Rightarrow>
          (case nestedPayload p of
             None \<Rightarrow> clock
           | Some q \<Rightarrow> extractTimestamp rt clock q))"
  by pat_completeness auto
termination
  by (relation "measure (\<lambda>(rt, clock, p). size p)") (auto dest: nestedPayload_size)

text \<open>\<open>normalize\<close>: \<open>Inl\<close> is \<^verbatim>\<open>{success: false, error}\<close>, \<open>Inr\<close> is \<^verbatim>\<open>{success: true, normalized}\<close>.
  Reading \<^verbatim>\<open>rawEvent.payload\<close> throws on \<open>null\<close>; \<^verbatim>\<open>rawEvent.payload || rawEvent\<close> is the
  nested value when it is truthy.\<close>

definition payloadOf :: "json \<Rightarrow> json" where
  "payloadOf rawEvent =
     (case getField rawEvent ''payload'' of
        None \<Rightarrow> rawEvent
      | Some v \<Rightarrow> if truthy v then v else rawEvent)"

definition normalize :: "runtime \<Rightarrow> ambient \<Rightarrow> json \<Rightarrow> failure + normalized" where
  "normalize rt amb rawEvent =
     (if rawEvent = JNull then Inl NullDereference
      else
        (let payload = payloadOf rawEvent in
         case extractClientId rt rawEvent of
           Inl e \<Rightarrow> Inl e
         | Inr c \<Rightarrow>
             (case extractMetric rt payload of
                Inl e \<Rightarrow> Inl e
              | Inr m \<Rightarrow>
                  (case extractAmount payload of
                     Inl e \<Rightarrow> Inl e
                   | Inr a \<Rightarrow>
                       (let t = extractTimestamp rt (now amb) payload;
                            n = \<lparr>clientId = c, metric = m, amount = a, timestamp = t\<rparr>
                        in Inr \<lparr>clientId = c, metric = m, amount = a, timestamp = t,
                                eventHash = generateEventHash rt n\<rparr>)))))"

subsection \<open>Stored records\<close>

datatype status = Processed | Rejected | Failed

text \<open>\<open>new_event\<close> is an \<open>Event\<close> instance before it is saved; \<open>event\<close> is a record of
  \<^verbatim>\<open>events.json\<close>, with the \<open>_id\<close> (here \<open>ev_id\<close>) and the times that \<open>createEvent\<close> adds. Times
  are instants in milliseconds.\<close>

record new_event = normalized +
  status :: status
  rejectionReason :: "string option"
  originalPayload :: json
  processedAt :: int
  retryCount :: nat

record event = new_event +
  ev_id :: string
  createdAt :: int
  updatedAt :: int

record dedup_record =
  d_eventHash :: string
  d_clientId :: string
  d_eventId :: string
  d_processedAt :: int
  d_createdAt :: int
  d_updatedAt :: int

text \<open>The two files of \<^verbatim>\<open>storage/fileStorage.js\<close>.\<close>

record store =
  events :: "event list"
  dedupRecords :: "dedup_record list"

subsection \<open>storage/fileStorage.js\<close>

text \<open>A write either replaces the file or throws and leaves it as it was. Reads return
  the file's content.\<close>

definition writeEvents :: "ambient \<Rightarrow> write_op \<Rightarrow> event list \<Rightarrow> store \<Rightarrow> failure + store" where
  "writeEvents amb w evs st =
     (if writeFails amb w then Inl WriteFailed else Inr (st\<lparr>events := evs\<rparr>))"

definition writeDedupRecords ::
  "ambient \<Rightarrow> write_op \<Rightarrow> dedup_record list \<Rightarrow> store \<Rightarrow> failure + store" where
  "writeDedupRecords amb w rs st =
     (if writeFails amb w then Inl WriteFailed else Inr (st\<lparr>dedupRecords := rs\<rparr>))"

text \<open>\<open>createEvent\<close>; \<open>k\<close> counts the calls of \<open>randomUUID\<close> made so far in this request.\<close>

definition createEvent ::
  "ambient \<Rightarrow> nat \<Rightarrow> write_op \<Rightarrow> new_event \<Rightarrow> store \<Rightarrow> failure + (event \<times> store)" where
  "createEvent amb k w d st =
     (let ev = \<lparr>clientId = clientId d, metric = metric d, amount = amount d,
                 timestamp = timestamp d, eventHash = eventHash d, status = status d,
                 rejectionReason = rejectionReason d, originalPayload = originalPayload d,
                 processedAt = processedAt d, retryCount = retryCount d,
                 ev_id = randomUUID amb k, createdAt = now amb, updatedAt = now amb\<rparr>
      in case writeEvents amb w (events st @ [ev]) st of
           Inl e \<Rightarrow> Inl e
         | Inr st' \<Rightarrow> Inr (ev, st'))"

definition findEventById :: "string \<Rightarrow> store \<Rightarrow> event option" where
  "findEventById i st = find (\<lambda>e. ev_id e = i) (events st)"

definition deleteEventById :: "ambient \<Rightarrow> write_op \<Rightarrow> string \<Rightarrow> store \<Rightarrow> failure + store" where
  "deleteEventById amb w i st = writeEvents amb w (filter (\<lambda>e. ev_id e \<noteq> i) (events st)) st"

definition findDedupRecord :: "string \<Rightarrow> store \<Rightarrow> dedup_record option" where
  "findDedupRecord h st = find (\<lambda>r. d_eventHash r = h) (dedupRecords st)"

text \<open>\<^verbatim>\<open>records[existingIndex] = record\<close> at the index of the first record with the hash.\<close>

fun replaceFirst :: "('a \<Rightarrow> bool) \<Rightarrow> 'a \<Rightarrow> 'a list \<Rightarrow> 'a list" where
  "replaceFirst P x [] = []"
| "replaceFirst P x (y # ys) = (if P y then x # ys else y # replaceFirst P x ys)"

definition upsertDedupRecord ::
  "ambient \<Rightarrow> write_op \<Rightarrow> string \<Rightarrow> string \<Rightarrow> string \<Rightarrow> store
     \<Rightarrow> failure + (dedup_record \<times> store)" where
  "upsertDedupRecord amb w h c i st =
     (let records = dedupRecords st;
          existing = find (\<lambda>r. d_eventHash r = h) records;
          record = \<lparr>d_eventHash = h, d_clientId = c, d_eventId = i, d_processedAt = now amb,
                     d_createdAt = (case existing of Some r \<Rightarrow> d_createdAt r | None \<Rightarrow> now amb),
                     d_updatedAt = now amb\<rparr>;
          records' = (case existing of
                        Some r \<Rightarrow> replaceFirst (\<lambda>r. d_eventHash r = h) record records
                      | None \<Rightarrow> records @ [record])
      in case writeDedupRecords amb w records' st of
           Inl e \<Rightarrow> Inl e
         | Inr st' \<Rightarrow> Inr (record, st'))"

subsection \<open>models/DeduplicationRecord.js and models/Event.js\<close>

text \<open>Both model methods test \<^verbatim>\<open>query.eventHash\<close> for truthiness first.\<close>

definition findOne :: "string \<Rightarrow> store \<Rightarrow> dedup_record option" where
  "findOne h st = (if h \<noteq> [] then findDedupRecord h st else None)"

definition findOneAndUpdate ::
  "ambient \<Rightarrow> write_op \<Rightarrow> string \<Rightarrow> string \<Rightarrow> string \<Rightarrow> store
     \<Rightarrow> failure + (dedup_record option \<times> store)" where
  "findOneAndUpdate amb w h c i st =
     (if h \<noteq> [] then
        (case upsertDedupRecord amb w h c i st of
           Inl e \<Rightarrow> Inl e
         | Inr (r, st') \<Rightarrow> Inr (Some r, st'))
      else Inr (None, st))"

text \<open>The \<open>Event\<close> constructor, for the data the pipeline passes: \<open>processedAt\<close> and
  \<open>retryCount\<close> are absent there and get their defaults.\<close>

definition Event ::
  "ambient \<Rightarrow> 'a normalized_scheme \<Rightarrow> status \<Rightarrow> string option \<Rightarrow> json \<Rightarrow> new_event" where
  "Event amb n s reason raw =
     \<lparr>clientId = clientId n, metric = metric n, amount = amount n, timestamp = timestamp n,
      eventHash = eventHash n, status = s, rejectionReason = reason, originalPayload = raw,
      processedAt = now amb, retryCount = 0\<rparr>"

definition Event_save ::
  "ambient \<Rightarrow> nat \<Rightarrow> write_op \<Rightarrow> new_event \<Rightarrow> store \<Rightarrow> failure + (event \<times> store)" where
  "Event_save amb k w d st = createEvent amb k w d st"

definition Event_findById :: "string \<Rightarrow> store \<Rightarrow> event option" where
  "Event_findById i st = findEventById i st"

definition Event_findByIdAndDelete ::
  "ambient \<Rightarrow> write_op \<Rightarrow> string \<Rightarrow> store \<Rightarrow> failure + store" where
  "Event_findByIdAndDelete amb w i st = deleteEventById amb w i st"

subsection \<open>services/deduplicationService.js\<close>

definition isDuplicate :: "string \<Rightarrow> store \<Rightarrow> bool" where
  "isDuplicate h st = (findOne h st \<noteq> None)"

text \<open>\<open>recordProcessedEvent\<close> answers \<open>false\<close> when a record exists and when the write throws.\<close>

definition recordProcessedEvent ::
  "ambient \<Rightarrow> string \<Rightarrow> string \<Rightarrow> string \<Rightarrow> store \<Rightarrow> bool \<times> store" where
  "recordProcessedEvent amb h c i st =
     (case findOne h st of
        Some existing \<Rightarrow> (False, st)
      | None \<Rightarrow>
          (case findOneAndUpdate amb RegisterIdentity h c i st of
             Inl e \<Rightarrow> (False, st)
           | Inr (r, st') \<Rightarrow> (True, st')))"

definition getExistingEventId :: "string \<Rightarrow> store \<Rightarrow> string option" where
  "getExistingEventId h st = (case findOne h st of Some r \<Rightarrow> Some (d_eventId r) | None \<Rightarrow> None)"

subsection \<open>services/eventProcessingService.js\<close>

text \<open>The object \<^verbatim>\<open>{ success, event, isDuplicate, error }\<close>; \<open>duplicate\<close> is its \<open>isDuplicate\<close>.\<close>

record result =
  success :: bool
  event :: "event option"
  duplicate :: bool
  error :: "string option"

text \<open>\<^verbatim>\<open>rejected_${Date.now()}_${Math.random()}\<close>\<close>

definition rejectedHash :: "runtime \<Rightarrow> ambient \<Rightarrow> string" where
  "rejectedHash rt amb =
     ''rejected_'' @ Number_toString rt (of_int (now amb)) @ ''_'' @
     Number_toString rt (random amb)"

definition rejectedData :: "runtime \<Rightarrow> ambient \<Rightarrow> normalized" where
  "rejectedData rt amb =
     \<lparr>clientId = ''unknown'', metric = ''rejected'', amount = 0, timestamp = now amb,
      eventHash = rejectedHash rt amb\<rparr>"

text \<open>The lookup that both the race branch and the \<open>catch\<close> block make: the event id
  registered for the hash, when truthy, and the event it names, when there is one.\<close>

definition existingWinner :: "string \<Rightarrow> store \<Rightarrow> event option" where
  "existingWinner h st =
     (case getExistingEventId h st of
        None \<Rightarrow> None
      | Some i \<Rightarrow> if i \<noteq> [] then Event_findById i st else None)"

definition duplicateOf :: "event option \<Rightarrow> result" where
  "duplicateOf e = \<lparr>success = True, event = e, duplicate = True, error = None\<rparr>"

text \<open>The \<open>catch\<close> block of step 4, for the error \<open>err\<close> thrown in the \<open>try\<close>.\<close>

definition catchBlock ::
  "ambient \<Rightarrow> normalized \<Rightarrow> json \<Rightarrow> failure \<Rightarrow> store \<Rightarrow> result \<times> store" where
  "catchBlock amb n raw err st =
     (case existingWinner (eventHash n) st of
        Some e \<Rightarrow> (duplicateOf (Some e), st)
      | None \<Rightarrow>
          (case Event_save amb 1 SaveFailedEvent (Event amb n Failed (Some (message err)) raw) st of
             Inr (failedEvent, st') \<Rightarrow>
               (\<lparr>success = False, event = Some failedEvent, duplicate = False,
                 error = Some (message err)\<rparr>, st')
           | Inl saveError \<Rightarrow>
               (\<lparr>success = False, event = None, duplicate = False,
                 error = Some (''Failed to process event: '' @ message err)\<rparr>, st)))"

text \<open>Step 4, the \<open>try\<close> block: save the event, register the identity, and on a refused
  registration delete the event and look for the winner; without one the control falls
  through to the final \<open>return\<close>.\<close>

definition writeAndRegister ::
  "ambient \<Rightarrow> normalized \<Rightarrow> json \<Rightarrow> store \<Rightarrow> result \<times> store" where
  "writeAndRegister amb n raw st =
     (case Event_save amb 0 SaveEvent (Event amb n Processed None raw) st of
        Inl err \<Rightarrow> catchBlock amb n raw err st
      | Inr (ev, st1) \<Rightarrow>
          (case recordProcessedEvent amb (eventHash n) (clientId n) (ev_id ev) st1 of
             (True, st2) \<Rightarrow>
               (\<lparr>success = True, event = Some ev, duplicate = False, error = None\<rparr>, st2)
           | (False, st2) \<Rightarrow>
               (case Event_findByIdAndDelete amb DeleteEvent (ev_id ev) st2 of
                  Inl err \<Rightarrow> catchBlock amb n raw err st2
                | Inr st3 \<Rightarrow>
                    (case existingWinner (eventHash n) st3 of
                       Some e \<Rightarrow> (duplicateOf (Some e), st3)
                     | None \<Rightarrow>
                         (\<lparr>success = True, event = Some ev, duplicate = False, error = None\<rparr>,
                          st3)))))"

text \<open>Step 2: the result returned for a hash that has a record with a truthy event id. The
  event is whatever \<open>findById\<close> returns for that id, \<open>null\<close> included.\<close>

definition duplicateCheck :: "string \<Rightarrow> store \<Rightarrow> result option" where
  "duplicateCheck h st =
     (if isDuplicate h st then
        (case getExistingEventId h st of
           None \<Rightarrow> None
         | Some i \<Rightarrow> if i \<noteq> [] then Some (duplicateOf (Event_findById i st)) else None)
      else None)"

text \<open>\<open>processEvent\<close>. The first component is \<open>Inr\<close> of the object the promise resolves to, or
  \<open>Inl\<close> of the error it rejects with; the second is the store afterwards. The \<open>throw\<close> of
  step 3 stands before the \<open>try\<close> of step 4, so nothing catches it.\<close>

definition processEvent ::
  "runtime \<Rightarrow> ambient \<Rightarrow> json \<Rightarrow> bool \<Rightarrow> store \<Rightarrow> (failure + result) \<times> store" where
  "processEvent rt amb rawEvent simulateFailure st =
     (case normalize rt amb rawEvent of
        Inl err \<Rightarrow>
          (case Event_save amb 0 SaveEvent
                  (Event amb (rejectedData rt amb) Rejected (Some (message err)) rawEvent) st of
             Inr (rejectedEvent, st') \<Rightarrow>
               (Inr \<lparr>success = False, event = Some rejectedEvent, duplicate = False,
                     error = Some (message err)\<rparr>, st')
           | Inl e \<Rightarrow>
               (Inr \<lparr>success = False, event = None, duplicate = False,
                     error = Some (''Failed to save rejected event: '' @ message e)\<rparr>, st))
      | Inr n \<Rightarrow>
          (case duplicateCheck (eventHash n) st of
             Some r \<Rightarrow> (Inr r, st)
           | None \<Rightarrow>
               (if simulateFailure then (Inl SimulatedFailure, st)
                else (case writeAndRegister amb n rawEvent st of (r, st') \<Rightarrow> (Inr r, st')))))"

text \<open>\<open>processEvents\<close>: the loop awaits each call; an error that a call throws leaves the
  loop and is thrown by \<open>processEvents\<close>. \<open>env k\<close> is the environment of the \<open>k\<close>-th call.\<close>

fun processEvents ::
  "runtime \<Rightarrow> (nat \<Rightarrow> ambient) \<Rightarrow> json list \<Rightarrow> bool \<Rightarrow> store
     \<Rightarrow> (failure + result list) \<times> store" where
  "processEvents rt env [] simulateFailure st = (Inr [], st)"
| "processEvents rt env (rawEvent # rest) simulateFailure st =
     (case processEvent rt (env 0) rawEvent simulateFailure st of
        (Inl e, st') \<Rightarrow> (Inl e, st')
      | (Inr r, st') \<Rightarrow>
          (case processEvents rt (\<lambda>k. env (Suc k)) rest simulateFailure st' of
             (Inl e, st'') \<Rightarrow> (Inl e, st'')
           | (Inr rs, st'') \<Rightarrow> (Inr (r # rs), st'')))"

subsection \<open>Aggregation: the route, Event.aggregate and fileStorage.aggregateEvents\<close>

text \<open>The \<^verbatim>\<open>$match\<close> stage. A bound of the time range is a \<open>Date\<close>, possibly invalid.\<close>

record time_range =
  gte :: "int option option"
  lte :: "int option option"

record match_criteria =
  m_status :: "status option"
  m_clientId :: "string option"
  m_metric :: "string option"
  m_timestamp :: "time_range option"

datatype group_by = GroupNone | GroupClientId | GroupMetric | GroupBoth

datatype group_label = Label string | PairLabel "string option" "string option"

record agg_row =
  totalAmount :: rat
  totalCount :: nat
  averageAmount :: rat
  minAmount :: "rat option"
  maxAmount :: "rat option"
  group :: "group_label option"

text \<open>The filter of \<open>aggregateEvents\<close>. A criterion applies when it is truthy; a comparison
  with an invalid date is false. The stored timestamp of an event is a valid date.\<close>

definition matchesCriteria :: "match_criteria \<Rightarrow> event \<Rightarrow> bool" where
  "matchesCriteria crit e =
     (if (case m_status crit of Some s \<Rightarrow> status e \<noteq> s | None \<Rightarrow> False) then False
      else if (case m_clientId crit of Some c \<Rightarrow> c \<noteq> [] \<and> clientId e \<noteq> c | None \<Rightarrow> False)
        then False
      else if (case m_metric crit of Some m \<Rightarrow> m \<noteq> [] \<and> metric e \<noteq> m | None \<Rightarrow> False)
        then False
      else
        (case m_timestamp crit of
           None \<Rightarrow> True
         | Some tr \<Rightarrow>
             (if (case gte tr of Some (Some t) \<Rightarrow> timestamp e < t | _ \<Rightarrow> False) then False
              else if (case lte tr of Some (Some t) \<Rightarrow> timestamp e > t | _ \<Rightarrow> False) then False
              else True)))"

definition groupKey :: "group_by \<Rightarrow> event \<Rightarrow> string" where
  "groupKey g e =
     (case g of
        GroupClientId \<Rightarrow> clientId e
      | GroupMetric \<Rightarrow> metric e
      | GroupBoth \<Rightarrow> clientId e @ ''|'' @ metric e
      | GroupNone \<Rightarrow> ''all'')"

text \<open>The \<open>Map\<close> of groups, in insertion order.\<close>

record group_data =
  g_totalAmount :: rat
  g_totalCount :: nat
  g_amounts :: "rat list"

fun addToGroup :: "string \<Rightarrow> rat \<Rightarrow> (string \<times> group_data) list \<Rightarrow> (string \<times> group_data) list"
where
  "addToGroup k a [] = [(k, \<lparr>g_totalAmount = 0 + a, g_totalCount = 0 + 1, g_amounts = [a]\<rparr>)]"
| "addToGroup k a ((k', d) # gs) =
     (if k' = k then
        (k', \<lparr>g_totalAmount = g_totalAmount d + a, g_totalCount = g_totalCount d + 1,
              g_amounts = g_amounts d @ [a]\<rparr>) # gs
      else (k', d) # addToGroup k a gs)"

text \<open>\<^verbatim>\<open>key.split('|')\<close> and the element of an array at an index, \<open>undefined\<close> beyond its end.\<close>

fun splitOn :: "char \<Rightarrow> string \<Rightarrow> string list" where
  "splitOn c [] = [[]]"
| "splitOn c (x # xs) =
     (if x = c then [] # splitOn c xs
      else (case splitOn c xs of [] \<Rightarrow> [[x]] | w # ws \<Rightarrow> (x # w) # ws))"

fun elemAt :: "'a list \<Rightarrow> nat \<Rightarrow> 'a option" where
  "elemAt [] i = None"
| "elemAt (x # xs) 0 = Some x"
| "elemAt (x # xs) (Suc i) = elemAt xs i"

definition toRow :: "group_by \<Rightarrow> string \<times> group_data \<Rightarrow> agg_row" where
  "toRow g kd =
     (let amounts = sort (g_amounts (snd kd)) in
      \<lparr>totalAmount = g_totalAmount (snd kd),
       totalCount = g_totalCount (snd kd),
       averageAmount = g_totalAmount (snd kd) / of_nat (g_totalCount (snd kd)),
       minAmount = elemAt amounts 0,
       maxAmount = elemAt amounts (length amounts - 1),
       group =
         (case g of
            GroupClientId \<Rightarrow> Some (Label (fst kd))
          | GroupMetric \<Rightarrow> Some (Label (fst kd))
          | GroupBoth \<Rightarrow>
              (let parts = splitOn CHR ''|'' (fst kd) in Some (PairLabel (elemAt parts 0) (elemAt parts 1)))
          | GroupNone \<Rightarrow> None)\<rparr>)"

text \<open>The groups of a list of events, and the rows sorted by \<open>totalAmount\<close>, largest first
  (the sort is stable).\<close>

definition summarise :: "group_by \<Rightarrow> event list \<Rightarrow> agg_row list" where
  "summarise g filtered =
     (let groups = foldl (\<lambda>gs e. addToGroup (groupKey g e) (amount e) gs) [] filtered
      in sort_key (\<lambda>r. - totalAmount r) (map (toRow g) groups))"

text \<open>The value of \<open>aggregateEvents\<close>: one row or \<^verbatim>\<open>{}\<close> without grouping, the rows otherwise.\<close>

datatype aggregate = Single "agg_row option" | Rows "agg_row list"

definition aggregateEvents :: "match_criteria \<Rightarrow> group_by \<Rightarrow> store \<Rightarrow> aggregate" where
  "aggregateEvents crit g st =
     (let filtered = filter (matchesCriteria crit) (events st);
          results = summarise g filtered
      in if g = GroupNone then Single (elemAt results 0) else Rows results)"

text \<open>\<open>Event.aggregate\<close> reads the \<^verbatim>\<open>$match\<close> stage and the \<open>_id\<close> of the \<^verbatim>\<open>$group\<close> stage of
  the pipeline and returns an array; an element \<open>None\<close> is the empty object.\<close>

datatype group_id = IdNull | IdClientId | IdMetric | IdBoth

definition Event_aggregate :: "match_criteria \<Rightarrow> group_id \<Rightarrow> store \<Rightarrow> agg_row option list" where
  "Event_aggregate crit gid st =
     (let groupBy = (case gid of
                       IdClientId \<Rightarrow> GroupClientId
                     | IdMetric \<Rightarrow> GroupMetric
                     | IdBoth \<Rightarrow> GroupBoth
                     | IdNull \<Rightarrow> GroupNone)
      in case aggregateEvents crit groupBy st of
           Rows rs \<Rightarrow> map Some rs
         | Single r \<Rightarrow> [r])"

text \<open>The query string of \<^verbatim>\<open>GET /api/aggregation\<close>; an absent parameter is \<open>None\<close>.\<close>

record agg_query =
  q_clientId :: "string option"
  q_startDate :: "string option"
  q_endDate :: "string option"
  q_metric :: "string option"
  q_groupBy :: "string option"

definition given :: "string option \<Rightarrow> bool" where
  "given p = (case p of Some s \<Rightarrow> s \<noteq> [] | None \<Rightarrow> False)"

definition routeCriteria :: "runtime \<Rightarrow> agg_query \<Rightarrow> match_criteria" where
  "routeCriteria rt q =
     \<lparr>m_status = Some Processed,
      m_clientId = (if given (q_clientId q) then q_clientId q else None),
      m_metric = (if given (q_metric q) then q_metric q else None),
      m_timestamp =
        (if given (q_startDate q) \<or> given (q_endDate q) then
           Some \<lparr>gte = (case q_startDate q of
                           Some s \<Rightarrow> if s \<noteq> [] then Some (Date_parse rt s) else None
                         | None \<Rightarrow> None),
                 lte = (case q_endDate q of
                          Some s \<Rightarrow> if s \<noteq> [] then Some (Date_parse rt s) else None
                        | None \<Rightarrow> None)\<rparr>
         else None)\<rparr>"

definition routeGroupId :: "string \<Rightarrow> group_id" where
  "routeGroupId groupBy =
     (if groupBy = ''clientId'' then IdClientId
      else if groupBy = ''metric'' then IdMetric
      else if groupBy = ''both'' then IdBoth
      else IdNull)"

text \<open>The \<open>aggregation\<close> member of the response of the route.\<close>

datatype aggregation = Object "agg_row option" | Array "agg_row option list"

definition aggregationRoute :: "runtime \<Rightarrow> agg_query \<Rightarrow> store \<Rightarrow> aggregation" where
  "aggregationRoute rt q st =
     (let groupBy = (case q_groupBy q of Some g \<Rightarrow> g | None \<Rightarrow> ''none'');
          results = Event_aggregate (routeCriteria rt q) (routeGroupId groupBy) st
      in if groupBy = ''none'' then Object (case elemAt results 0 of Some (Some r) \<Rightarrow> Some r | _ \<Rightarrow> None)
         else Array results)"

subsection \<open>A small platform for concrete runs\<close>

text \<open>
  The theorems below hold for every \<open>runtime\<close>. To run the definitions on concrete inputs
  a runtime has to be fixed: \<open>sampleRuntime\<close> renders a number by the decimal digits of its
  integral part and a date by its count of whole seconds (the resolution of the platform's
  rendering of a date), parses no date string, and stands a 64-digit hexadecimal tag of
  the input text in for the SHA-256 digest.
\<close>

function decimal :: "nat \<Rightarrow> string" where
  "decimal n =
     (if n < 10 then [''0123456789'' ! n]
      else decimal (n div 10) @ [''0123456789'' ! (n mod 10)])"
  by pat_completeness auto
termination
  by (relation "measure id") auto

definition sampleDigest :: "string \<Rightarrow> string" where
  "sampleDigest s =
     map (\<lambda>c. ''0123456789abcdef'' ! (of_char c mod 16)) (take 64 (rev s @ replicate 64 CHR ''0''))"

definition sampleRuntime :: runtime where
  "sampleRuntime =
     \<lparr>sha256 = sampleDigest,
      Number_toString = (\<lambda>x. (if x < 0 then ''-'' else []) @ decimal (nat \<bar>\<lfloor>x\<rfloor>\<bar>)),
      Date_toString = (\<lambda>t. decimal (nat (t div 1000))),
      Date_parse = (\<lambda>s. None)\<rparr>"

text \<open>The environment of a call at clock \<open>t\<close> in which no write fails.\<close>

definition calmAt :: "int \<Rightarrow> ambient" where
  "calmAt t =
     \<lparr>now = t, random = 1 / 2,
      randomUUID = (\<lambda>k. ''id-'' @ decimal (nat t) @ ''-'' @ decimal k),
      writeFails = (\<lambda>w. False)\<rparr>"

definition emptyStore :: store where
  "emptyStore = \<lparr>events = [], dedupRecords = []\<rparr>"

text \<open>Two payloads with a numeric timestamp, the record that the first one leaves in an empty
  store when it is processed at clock 0, and that store.\<close>

definition sampleEvent :: json where
  "sampleEvent =
     JObj [(''source'', JStr ''client_A''),
           (''payload'', JObj [(''metric'', JStr ''purchase''), (''amount'', JStr ''1200''),
                               (''timestamp'', JNum 1704067200)])]"

definition otherEvent :: json where
  "otherEvent =
     JObj [(''source'', JStr ''client_B''), (''amount'', JNum 2),
           (''timestamp'', JNum 1704067200)]"

definition sampleStored :: event where
  "sampleStored =
     \<lparr>clientId = ''client_A'', metric = ''purchase'', amount = 1200,
      timestamp = 1704067200000,
      eventHash = sampleDigest (''client_A|purchase|1200|1704067200''),
      status = Processed, rejectionReason = None, originalPayload = sampleEvent,
      processedAt = 0, retryCount = 0, ev_id = ''id-0-0'', createdAt = 0, updatedAt = 0\<rparr>"

definition sampleStore :: store where
  "sampleStore =
     \<lparr>events = [sampleStored],
      dedupRecords =
        [\<lparr>d_eventHash = sampleDigest (''client_A|purchase|1200|1704067200''),
          d_clientId = ''client_A'', d_eventId = ''id-0-0'', d_processedAt = 0,
          d_createdAt = 0, d_updatedAt = 0\<rparr>]\<rparr>"

text \<open>A payload without a timestamp, and two payloads that fail normalization.\<close>

definition bareEvent :: json where
  "bareEvent = JObj [(''source'', JStr ''client_A''), (''amount'', JNum 1)]"

definition noAmountEvent :: json where
  "noAmountEvent = JObj [(''source'', JStr ''client_A'')]"

definition noClientEvent :: json where
  "noClientEvent = JObj [(''amount'', JNum 5)]"

subsection \<open>The amount rule as the specification words it\<close>



function payloadChain :: "json \<Rightarrow> json list" where
  "payloadChain p = p # (case nestedPayload p of None \<Rightarrow> [] | Some q \<Rightarrow> payloadChain q)"
  by pat_completeness auto
termination
  by (relation "measure size") (auto dest: nestedPayload_size)

text \<open>The values that a search for the client id meets: at each level of the payload chain,
  outermost first, the first of the five fields that is neither \<open>undefined\<close> nor \<open>null\<close>.\<close>

definition clientIdValues :: "json \<Rightarrow> json list" where
  "clientIdValues p = List.map_filter (\<lambda>q. firstPresent q clientIdFields) (payloadChain p)"

declare payloadChain.simps [simp del]
declare extractClientId.simps [simp del]
declare extractMetric.simps [simp del]
declare extractAmount.simps [simp del]
declare extractTimestamp.simps [simp del]
declare decimal.simps [simp del]

lemmas normalize_eval =
  normalize_def payloadOf_def extractClientId.simps extractMetric.simps extractAmount.simps
  extractTimestamp.simps clientIdFields_def metricFields_def amountFields_def
  timestampFields_def nestedPayload_def trimmedString_def trim_def isSpace_def parseFloat_def
  stripNonNumeric_def isDigit_def digitsVal_def digitVal_def Let_def new_Date_def
  dateFormats_def matchYMD_def matchMDY_def digitRun_def digitGroup_def padStart2_def
  generateEventHash_def hashInput_def

lemmas pipeline_eval =
  processEvent_def duplicateCheck_def writeAndRegister_def catchBlock_def existingWinner_def
  duplicateOf_def isDuplicate_def getExistingEventId_def recordProcessedEvent_def findOne_def
  findOneAndUpdate_def upsertDedupRecord_def findDedupRecord_def Event_save_def
  Event_findById_def Event_findByIdAndDelete_def createEvent_def findEventById_def
  deleteEventById_def writeEvents_def writeDedupRecords_def Event_def rejectedData_def
  rejectedHash_def Let_def

section \<open>Properties\<close>

subsection \<open>Whole numbers are binary64 numbers\<close>

text \<open>An integer below \<open>2^53\<close> in magnitude has a significand of at most 53 bits: rounding
  leaves it as it is.\<close>

lemma roundHalfEven_int: "roundHalfEven (of_int z) = z"
  by (simp add: roundHalfEven_def)

lemma ilog2_int:
  assumes "0 < k" "k < 2 ^ 53"
  shows "ilog2 (of_int k) \<le> 52"
proof -
  have "bitlen k \<le> 53"
    using assms by (simp add: bitlen_le_iff_power)
  moreover have "bitlen 1 = 1"
    by (simp add: bitlen_def compute_floorlog)
  ultimately show ?thesis
    by (simp add: ilog2_def Let_def)
qed

lemma binary64_pos_int:
  assumes "0 < k" "k < 2 ^ 53"
  shows "binary64 (of_int k) = of_int k"
proof -
  define j where "j = nat (52 - ilog2 (of_int k))"
  have e: "ilog2 (of_int k) - 52 = - int j"
    using ilog2_int [OF assms] by (simp add: j_def)
  have p: "pow2 (- int j) = 1 / 2 ^ j"
    by (cases "j = 0") (simp_all add: pow2_def)
  have "(of_int k :: rat) / pow2 (- int j) = of_int (k * 2 ^ j)"
    by (simp add: p)
  then have "roundHalfEven (of_int k / pow2 (- int j)) = k * 2 ^ j"
    by (simp only: roundHalfEven_int)
  then have r: "roundHalfEven (\<bar>of_int k\<bar> / pow2 (ilog2 \<bar>of_int k\<bar> - 52)) = k * 2 ^ j"
    using assms(1) by (simp only: e abs_of_pos of_int_0_less_iff)
  have "binary64 (of_int k) =
          sgn (of_int k) * of_int (roundHalfEven (\<bar>of_int k\<bar> / pow2 (ilog2 \<bar>of_int k\<bar> - 52))) *
          pow2 (ilog2 \<bar>of_int k\<bar> - 52)"
    using assms(1) unfolding binary64_def Let_def by simp
  also have "\<dots> = of_int (k * 2 ^ j) * (1 / 2 ^ j)"
    using assms(1) unfolding r by (simp only: e p abs_of_pos of_int_0_less_iff sgn_pos mult_1)
  also have "\<dots> = of_int k"
    by simp
  finally show ?thesis .
qed

lemma binary64_neg: "binary64 (- x) = - binary64 x"
  by (simp add: binary64_def Let_def)

lemma binary64_int:
  assumes "\<bar>k\<bar> < 2 ^ 53"
  shows "binary64 (of_int k) = of_int k"
proof -
  consider "k = 0" | "0 < k" | "k < 0" by linarith
  then show ?thesis
  proof cases
    case 1 then show ?thesis by (simp add: binary64_def)
  next
    case 2 then show ?thesis using assms by (simp add: binary64_pos_int)
  next
    case 3
    then have "binary64 (of_int (- k)) = of_int (- k)"
      using assms by (intro binary64_pos_int) auto
    then show ?thesis using binary64_neg [of "of_int k"] by simp
  qed
qed

lemma binary64_numeral [simp]:
  "numeral w < (9007199254740992::int) \<Longrightarrow> binary64 (numeral w) = numeral w"
  using binary64_int [of "numeral w"] by simp

lemma binary64_zero [simp]: "binary64 0 = 0"
  by (simp add: binary64_def)

subsection \<open>Which errors the extractors raise\<close>

lemma toStr_failure: "toStr rt v = Inl e \<Longrightarrow> e = NotPrimitive"
  and joinStr_failure: "joinStr rt vs = Inl e \<Longrightarrow> e = NotPrimitive"
  by (induction rt v and rt vs rule: toStr_joinStr.induct) (auto split: sum.splits if_splits)

lemma trimmedString_failure: "trimmedString rt v = Inl e \<Longrightarrow> e = NotPrimitive"
  by (auto simp: trimmedString_def split: sum.splits dest: toStr_failure)

lemma extractClientId_failure:
  "extractClientId rt p = Inl e \<Longrightarrow> e = ClientIdNotFound \<or> e = NotPrimitive"
proof (induction rt p rule: extractClientId.induct)
  case (1 rt p)
  from "1.prems" show ?case
    by (subst (asm) extractClientId.simps)
       (auto split: option.splits sum.splits if_splits dest: trimmedString_failure "1.IH")
qed

lemma extractMetric_failure: "extractMetric rt p = Inl e \<Longrightarrow> e = NotPrimitive"
proof (induction rt p rule: extractMetric.induct)
  case (1 rt p)
  from "1.prems" show ?case
    by (subst (asm) extractMetric.simps)
       (auto split: option.splits sum.splits if_splits dest: trimmedString_failure "1.IH")
qed

lemma extractAmount_failure: "extractAmount p = Inl e \<Longrightarrow> e = AmountNotFound"
proof (induction p rule: extractAmount.induct)
  case (1 p)
  from "1.prems" show ?case
    by (subst (asm) extractAmount.simps)
       (auto split: option.splits sum.splits if_splits dest: "1.IH")
qed


lemma normalize_clientId_failure:
  "(normalize rt amb raw = Inl ClientIdNotFound) =
   (raw \<noteq> JNull \<and> extractClientId rt raw = Inl ClientIdNotFound)"
  by (auto simp: normalize_def Let_def split: sum.splits
      dest: extractClientId_failure extractMetric_failure extractAmount_failure)

subsection \<open>Amount extraction\<close>









subsection \<open>Numeric timestamps\<close>

lemma new_Date_int: "\<bar>k\<bar> \<le> 8640000000000000 \<Longrightarrow> new_Date (of_int k) = Some k"
  by (simp add: new_Date_def)
     (metis abs_le_iff of_int_abs of_int_le_iff of_int_numeral linorder_not_less)

lemma parseDate_seconds:
  assumes "- 8640000000000 \<le> k" and "k < 10000000000"
  shows "parseDate rt (JNum (of_int k)) = Some (Some (k * 1000))"
proof -
  from assms have "\<bar>k * 1000\<bar> \<le> 8640000000000000" by linarith
  then have "new_Date (of_int (k * 1000)) = Some (k * 1000)" by (rule new_Date_int)
  moreover have "(of_int k :: rat) < 10000000000"
    using assms(2) by (metis of_int_less_iff of_int_numeral)
  moreover have "binary64 (of_int k) = of_int k"
    using assms by (intro binary64_int) simp
  moreover have "binary64 (of_int (k * 1000)) = of_int (k * 1000)"
    using assms by (intro binary64_int) simp
  ultimately show ?thesis by (simp add: Let_def)
qed

lemma parseDate_millis:
  assumes "10000000000 \<le> k" and "k \<le> 8640000000000000"
  shows "parseDate rt (JNum (of_int k)) = Some (Some k)"
proof -
  from assms have "\<bar>k\<bar> \<le> 8640000000000000" by linarith
  then have "new_Date (of_int k) = Some k" by (rule new_Date_int)
  moreover have "\<not> (of_int k :: rat) < 10000000000"
    using assms(1) by (metis of_int_less_iff of_int_numeral linorder_not_less)
  moreover have "binary64 (of_int k) = of_int k"
    using assms by (intro binary64_int) simp
  ultimately show ?thesis by (simp add: Let_def)
qed

text \<open>Two values that are not whole: the literal \<open>0.7\<close> denotes a number below seven tenths
  whose product with 1000 rounds to 700, the literal \<open>1.001\<close> one whose product with 1000
  stays below 1001.\<close>

lemma binary64_seven_tenths: "binary64 (binary64 (7 / 10) * 1000) = 700"
  by code_simp

lemma binary64_1001_thousandths:
  "binary64 (binary64 (1001 / 1000) * 1000) = 8804889115230207 / 8796093022208"
  by code_simp

lemma binary64_seven_tenths_less: "binary64 (7 / 10) < 10000000000"
  by code_simp

lemma binary64_1001_thousandths_less: "binary64 (1001 / 1000) < 10000000000"
  by code_simp

lemma floor_1001_thousandths: "\<lfloor>8804889115230207 / 8796093022208 :: rat\<rfloor> = 1000"
  by code_simp

text \<open>
  C8 as stated fails: the value \<open>10^16\<close> is not below \<open>10^10\<close>, so it is read as milliseconds,
  but \<^verbatim>\<open>new Date(1e16)\<close> is an Invalid Date, not the instant \<open>10^16\<close>; \<open>extractTimestamp\<close> then
  passes on to the next field.
\<close>

theorem parseDate_number_counterexample:
  "parseDate sampleRuntime (JNum 10000000000000000) = Some None"
proof -
  have "binary64 10000000000000000 = 10000000000000000"
    by code_simp
  then show ?thesis
    by (simp add: new_Date_def Let_def)
qed

text \<open>
  C8, amended. For every number \<open>v\<close>, \<open>parseDate\<close> builds the date from the product
  \<open>v * 1000\<close>, rounded to binary64 as the multiplication rounds it, when \<open>v\<close> is below \<open>10^10\<close>
  and from \<open>v\<close> otherwise; a count of milliseconds beyond \<open>8.64e15\<close> in magnitude gives an
  Invalid Date and any other is truncated towards zero. For a whole number \<open>k\<close> this is
  the instant \<open>k * 1000\<close> when \<open>-8.64e12 \<le> k < 10^10\<close> and the instant \<open>k\<close> when
  \<open>10^10 \<le> k \<le> 8.64e15\<close>; 1704067200 and 1704067200000 parse to the same instant. Of
  the fractions, \<open>0.7\<close> is the instant 700 and \<open>1.001\<close> the instant 1000.
\<close>

theorem parseDate_number:
  "parseDate rt (JNum v) =
     (let d = binary64 v;
          ms = (if d < 10000000000 then binary64 (d * 1000) else d)
      in if 8640000000000000 < \<bar>ms\<bar> then Some None
         else Some (Some (if 0 \<le> ms then \<lfloor>ms\<rfloor> else \<lceil>ms\<rceil>))) \<and>
   (- 8640000000000 \<le> k \<and> k < 10000000000 \<longrightarrow>
      parseDate rt (JNum (of_int k)) = Some (Some (k * 1000))) \<and>
   (10000000000 \<le> m \<and> m \<le> 8640000000000000 \<longrightarrow>
      parseDate rt (JNum (of_int m)) = Some (Some m)) \<and>
   parseDate rt (JNum 1704067200) = Some (Some 1704067200000) \<and>
   parseDate rt (JNum 1704067200000) = Some (Some 1704067200000) \<and>
   parseDate rt (JNum (7 / 10)) = Some (Some 700) \<and>
   parseDate rt (JNum (1001 / 1000)) = Some (Some 1000)"
proof -
  have "parseDate rt (JNum v) =
     (let d = binary64 v;
          ms = (if d < 10000000000 then binary64 (d * 1000) else d)
      in if 8640000000000000 < \<bar>ms\<bar> then Some None
         else Some (Some (if 0 \<le> ms then \<lfloor>ms\<rfloor> else \<lceil>ms\<rceil>)))"
    by (simp add: new_Date_def Let_def)
  moreover have "parseDate rt (JNum 1704067200) = Some (Some 1704067200000)"
    by (simp add: new_Date_def)
  moreover have "parseDate rt (JNum 1704067200000) = Some (Some 1704067200000)"
    by (simp add: new_Date_def)
  moreover have "parseDate rt (JNum (7 / 10)) = Some (Some 700)"
    using binary64_seven_tenths_less
    by (simp add: new_Date_def Let_def binary64_seven_tenths)
  moreover have "parseDate rt (JNum (1001 / 1000)) = Some (Some 1000)"
    using binary64_1001_thousandths_less floor_1001_thousandths
    by (simp add: new_Date_def Let_def binary64_1001_thousandths)
  ultimately show ?thesis
    using parseDate_seconds [of k rt] parseDate_millis [of m rt] by blast
qed

text \<open>The two ranges are inhabited: the rule at 1704067200 seconds and at 1704067200000
  milliseconds.\<close>

theorem parseDate_number_witness:
  "- 8640000000000 \<le> (1704067200 :: int) \<and> (1704067200 :: int) < 10000000000 \<and>
   parseDate sampleRuntime (JNum (of_int 1704067200)) = Some (Some (1704067200 * 1000)) \<and>
   10000000000 \<le> (1704067200000 :: int) \<and> (1704067200000 :: int) \<le> 8640000000000000 \<and>
   parseDate sampleRuntime (JNum (of_int 1704067200000)) = Some (Some 1704067200000)"
  using parseDate_number [of sampleRuntime 0 1704067200 1704067200000] by simp


subsection \<open>Aggregation reads processed records only\<close>

lemma filter_matchesCriteria_processed:
  "m_status crit = Some Processed \<Longrightarrow>
   filter (matchesCriteria crit) (filter (\<lambda>e. status e = Processed) evs) =
   filter (matchesCriteria crit) evs"
  by (induction evs) (auto simp: matchesCriteria_def)

lemma aggregateEvents_processed_only:
  "m_status crit = Some Processed \<Longrightarrow>
   aggregateEvents crit g (st\<lparr>events := filter (\<lambda>e. status e = Processed) (events st)\<rparr>) =
   aggregateEvents crit g st"
  by (simp add: aggregateEvents_def filter_matchesCriteria_processed del: filter_filter)

text \<open>
  C9. The aggregation endpoint answers the same, for every query (filters and \<open>groupBy\<close>) and
  every store, when all records whose status is not \<open>processed\<close> are removed from the store:
  a rejected or failed record contributes to no total, count, average, minimum or maximum.
\<close>

theorem aggregation_ignores_unprocessed:
  "aggregationRoute rt q (st\<lparr>events := filter (\<lambda>e. status e = Processed) (events st)\<rparr>) =
   aggregationRoute rt q st"
proof -
  have "m_status (routeCriteria rt q) = Some Processed"
    by (simp add: routeCriteria_def)
  then have "aggregateEvents (routeCriteria rt q) g
               (st\<lparr>events := filter (\<lambda>e. status e = Processed) (events st)\<rparr>) =
             aggregateEvents (routeCriteria rt q) g st" for g
    by (rule aggregateEvents_processed_only)
  then show ?thesis
    by (simp add: aggregationRoute_def Event_aggregate_def)
qed

subsection \<open>Client id extraction\<close>

lemma clientIdValues_unfold:
  "clientIdValues p =
     (case firstPresent p clientIdFields of None \<Rightarrow> [] | Some v \<Rightarrow> [v]) @
     (case nestedPayload p of None \<Rightarrow> [] | Some q \<Rightarrow> clientIdValues q)"
  unfolding clientIdValues_def
  by (subst payloadChain.simps) (simp add: List.map_filter_simps split: option.splits)

lemma extractClientId_chain:
  "extractClientId rt p =
     (case clientIdValues p of
        [] \<Rightarrow> Inl ClientIdNotFound
      | v # vs \<Rightarrow>
          (case trimmedString rt v of
             Inl e \<Rightarrow> Inl e
           | Inr s \<Rightarrow>
               if s = [] \<and> firstPresent p clientIdFields = None then Inl ClientIdNotFound
               else Inr s))"
proof (induction rt p rule: extractClientId.induct)
  case (1 rt p)
  show ?case
  proof (cases "firstPresent p clientIdFields")
    case (Some v)
    then show ?thesis
      by (subst extractClientId.simps, subst clientIdValues_unfold) (simp split: sum.splits)
  next
    case None
    note top = None
    show ?thesis
    proof (cases "nestedPayload p")
      case None
      with top show ?thesis
        by (subst extractClientId.simps, subst clientIdValues_unfold) simp
    next
      case (Some q)
      from "1.IH" [OF top Some] top Some show ?thesis
        by (subst extractClientId.simps, subst clientIdValues_unfold)
           (auto split: list.splits sum.splits)
    qed
  qed
qed

lemma trim_trimmed:
  "trim s = [] \<or> (\<not> isSpace (hd (trim s)) \<and> \<not> isSpace (last (trim s)))"
proof (cases "trim s = []")
  case True
  then show ?thesis by simp
next
  case False
  define a where "a = dropWhile isSpace s"
  define b where "b = dropWhile isSpace (rev a)"
  have t: "trim s = rev b" by (simp add: trim_def a_def b_def)
  with False have b: "b \<noteq> []" by simp
  then have a: "a \<noteq> []" by (auto simp: b_def)
  have "\<not> isSpace (hd b)" using b unfolding b_def by (rule hd_dropWhile)
  then have l: "\<not> isSpace (last (trim s))" using b by (simp add: t last_rev)
  have "last b = last (rev a)"
    using b unfolding b_def
    by (metis append_take_drop_id last_appendR takeWhile_dropWhile_id)
  then have "hd (trim s) = hd a" using a b by (simp add: t hd_rev last_rev)
  moreover have "\<not> isSpace (hd a)" using a unfolding a_def by (rule hd_dropWhile)
  ultimately show ?thesis using l by simp
qed

lemma trimmedString_trimmed:
  "trimmedString rt v = Inr s \<Longrightarrow> s = [] \<or> (\<not> isSpace (hd s) \<and> \<not> isSpace (last s))"
  using trim_trimmed by (auto simp: trimmedString_def split: sum.splits)

lemma normalize_clientId:
  "normalize rt amb raw = Inr n \<Longrightarrow> extractClientId rt raw = Inr (clientId n)"
  by (auto simp: normalize_def Let_def split: sum.splits if_splits)

text \<open>
  What \<open>normalize\<close> does about the client id, for every payload. It fails with the client-id
  error exactly when the payload is not \<open>null\<close> and either none of the five fields has a
  value other than \<open>null\<close> at any level of the payload chain, or the top level has none and
  the first value found below is empty after trimming. When it succeeds, the client id is
  \<^verbatim>\<open>String(v).trim()\<close> of the first value \<open>v\<close> found, with no white space at either end.
\<close>

lemma normalize_clientId_rule:
  "(normalize rt amb raw = Inl ClientIdNotFound) =
     (raw \<noteq> JNull \<and>
      (case clientIdValues raw of
         [] \<Rightarrow> True
       | v # vs \<Rightarrow> firstPresent raw clientIdFields = None \<and> trimmedString rt v = Inr [])) \<and>
   (normalize rt amb raw = Inr n \<longrightarrow>
      (\<exists>v vs. clientIdValues raw = v # vs \<and> trimmedString rt v = Inr (clientId n)) \<and>
      (clientId n = [] \<or> (\<not> isSpace (hd (clientId n)) \<and> \<not> isSpace (last (clientId n)))))"
proof -
  have "(extractClientId rt raw = Inl ClientIdNotFound) =
        (case clientIdValues raw of
           [] \<Rightarrow> True
         | v # vs \<Rightarrow> firstPresent raw clientIdFields = None \<and> trimmedString rt v = Inr [])"
    by (subst extractClientId_chain)
       (auto split: list.splits sum.splits dest: trimmedString_failure)
  then have first: "(normalize rt amb raw = Inl ClientIdNotFound) =
     (raw \<noteq> JNull \<and>
      (case clientIdValues raw of
         [] \<Rightarrow> True
       | v # vs \<Rightarrow> firstPresent raw clientIdFields = None \<and> trimmedString rt v = Inr []))"
    by (simp add: normalize_clientId_failure)
  have second:
    "(\<exists>v vs. clientIdValues raw = v # vs \<and> trimmedString rt v = Inr (clientId n)) \<and>
     (clientId n = [] \<or> (\<not> isSpace (hd (clientId n)) \<and> \<not> isSpace (last (clientId n))))"
    if ok: "normalize rt amb raw = Inr n"
  proof -
    from ok have "extractClientId rt raw = Inr (clientId n)"
      by (rule normalize_clientId)
    then obtain v vs
      where v: "clientIdValues raw = v # vs" "trimmedString rt v = Inr (clientId n)"
      by (subst (asm) extractClientId_chain) (auto split: list.splits sum.splits if_splits)
    from v(2)
    have "clientId n = [] \<or> (\<not> isSpace (hd (clientId n)) \<and> \<not> isSpace (last (clientId n)))"
      by (rule trimmedString_trimmed)
    with v show ?thesis by blast
  qed
  from first second show ?thesis by blast
qed

text \<open>A client id that is padded with blanks, and one that is a no-break space only, below
  the top level.\<close>

lemma normalize_padded_clientId:
  "\<exists>n. normalize rt amb (JObj [(''source'', JStr '' client_A ''), (''amount'', JNum 1)]) = Inr n \<and>
        clientId n = ''client_A''"
  by (simp add: normalize_eval)

lemma normalize_nested_blank_clientId:
  "normalize rt amb
     (JObj [(''payload'', JObj [(''source'', JStr [CHR 0xA0]), (''amount'', JNum 1)])]) =
   Inl ClientIdNotFound"
  by (simp add: normalize_eval)

text \<open>
  C6. The claim asks for a client id that is not empty whenever \<open>normalize\<close> succeeds, and
  the nested path of \<open>extractClientId\<close> keeps to it: an empty result of the recursive call
  is not returned (\<^verbatim>\<open>if (nestedResult)\<close>) and the error is raised. The loop over the fields
  of the top level returns \<^verbatim>\<open>String(payload[field]).trim()\<close> without that test: the payload
  \<^verbatim>\<open>{"source": "", "amount": 1}\<close> normalizes, on every platform and at every clock, and its
  client id is the empty string, while the same fields one level down,
  \<^verbatim>\<open>{"payload": {"source": "", "amount": 1}}\<close>, are refused with the client-id error.
\<close>

theorem normalize_accepts_empty_clientId:
  "(\<exists>n. normalize rt amb (JObj [(''source'', JStr []), (''amount'', JNum 1)]) = Inr n \<and>
         clientId n = []) \<and>
   normalize rt amb (JObj [(''payload'', JObj [(''source'', JStr []), (''amount'', JNum 1)])]) =
     Inl ClientIdNotFound"
  by (simp add: normalize_eval)

subsection \<open>Runs of the pipeline on the sample payloads\<close>

lemma sampleDigest_length: "length (sampleDigest s) = 64"
  by (simp add: sampleDigest_def)

lemma sampleDigest_nonempty: "sampleDigest s \<noteq> []"
  using sampleDigest_length [of s] by auto

lemma normalize_sampleEvent:
  "normalize sampleRuntime amb sampleEvent =
     Inr \<lparr>clientId = ''client_A'', metric = ''purchase'', amount = 1200,
          timestamp = 1704067200000,
          eventHash = sampleDigest (''client_A|purchase|1200|1704067200'')\<rparr>"
  by (simp add: sampleEvent_def normalize_eval sampleRuntime_def decimal.simps)

lemma processEvent_sampleEvent:
  "processEvent sampleRuntime (calmAt 0) sampleEvent False emptyStore =
     (Inr \<lparr>success = True, event = Some sampleStored, duplicate = False, error = None\<rparr>,
      sampleStore)"
  by (simp add: normalize_sampleEvent pipeline_eval emptyStore_def sampleStore_def
      sampleStored_def sampleDigest_nonempty calmAt_def decimal.simps)

subsection \<open>The duplicate check comes before the simulated failure\<close>

lemma processEvent_duplicate:
  assumes "normalize rt amb rawEvent = Inr n"
    and "findOne (eventHash n) st = Some r"
    and "d_eventId r \<noteq> []"
  shows "processEvent rt amb rawEvent simulateFailure st =
         (Inr (duplicateOf (findEventById (d_eventId r) st)), st)"
  using assms
  by (simp add: processEvent_def duplicateCheck_def isDuplicate_def getExistingEventId_def
      Event_findById_def)

text \<open>An identity record after a call is one of the records from before the call or holds
  the id that the call generated for its event: with generated ids that are not empty, no
  identity record ever holds an empty one.\<close>

lemma recordProcessedEvent_records:
  assumes "recordProcessedEvent amb h c i st = (b, st')" and "r \<in> set (dedupRecords st')"
  shows "r \<in> set (dedupRecords st) \<or> d_eventId r = i"
  using assms
  by (auto simp: recordProcessedEvent_def findOneAndUpdate_def upsertDedupRecord_def
      writeDedupRecords_def findOne_def findDedupRecord_def Let_def
      split: option.splits sum.splits if_splits prod.splits)

lemma Event_save_records:
  "Event_save amb k w d st = Inr (ev, st') \<Longrightarrow>
     dedupRecords st' = dedupRecords st \<and> ev_id ev = randomUUID amb k"
  by (auto simp: Event_save_def createEvent_def writeEvents_def Let_def split: if_splits)

lemma Event_findByIdAndDelete_records:
  "Event_findByIdAndDelete amb w i st = Inr st' \<Longrightarrow> dedupRecords st' = dedupRecords st"
  by (auto simp: Event_findByIdAndDelete_def deleteEventById_def writeEvents_def split: if_splits)

lemma catchBlock_records:
  "catchBlock amb n raw err st = (res, st') \<Longrightarrow> dedupRecords st' = dedupRecords st"
  by (auto simp: catchBlock_def split: option.splits sum.splits prod.splits
      dest: Event_save_records)

lemma writeAndRegister_records:
  assumes "writeAndRegister amb n raw st = (res, st')" and "r \<in> set (dedupRecords st')"
  shows "r \<in> set (dedupRecords st) \<or> d_eventId r = randomUUID amb 0"
proof (cases "Event_save amb 0 SaveEvent (Event amb n Processed None raw) st")
  case (Inl err)
  with assms show ?thesis
    by (auto simp: writeAndRegister_def dest: catchBlock_records)
next
  case (Inr p)
  obtain ev st1 where p: "p = (ev, st1)" by (cases p)
  from Inr p have s1: "dedupRecords st1 = dedupRecords st" "ev_id ev = randomUUID amb 0"
    by (auto dest: Event_save_records)
  obtain b st2 where reg:
    "recordProcessedEvent amb (eventHash n) (clientId n) (ev_id ev) st1 = (b, st2)"
    by (cases "recordProcessedEvent amb (eventHash n) (clientId n) (ev_id ev) st1")
  have "dedupRecords st' = dedupRecords st2"
    using assms(1) Inr p reg
    by (auto simp: writeAndRegister_def split: sum.splits option.splits bool.splits
        dest: catchBlock_records Event_findByIdAndDelete_records)
  with assms(2) recordProcessedEvent_records [OF reg, of r] s1 show ?thesis
    by auto
qed

lemma processEvent_records:
  assumes "processEvent rt amb raw sim st = (res, st')" and "r \<in> set (dedupRecords st')"
  shows "r \<in> set (dedupRecords st) \<or> d_eventId r = randomUUID amb 0"
  using assms
  by (auto simp: processEvent_def split: sum.splits option.splits if_splits prod.splits
      dest: Event_save_records writeAndRegister_records)

text \<open>
  C4 as stated fails. The two stores are two files, each rewritten as a whole by the request
  that changes it, so that an identity record can outlive its event (a request that read
  \<^verbatim>\<open>events.json\<close> before the event was written and writes it back afterwards drops the
  event and leaves the record). For a payload whose hash is registered in that way,
  \<open>processEvent\<close> with \<open>simulateFailure = true\<close> reports a duplicate, but the event it returns
  is \<open>null\<close>: there is no existing event to return.
\<close>

theorem duplicate_before_simulated_failure_counterexample:
  "processEvent sampleRuntime (calmAt 5000) sampleEvent True (sampleStore\<lparr>events := []\<rparr>) =
     (Inr \<lparr>success = True, event = None, duplicate = True, error = None\<rparr>,
      sampleStore\<lparr>events := []\<rparr>)"
proof -
  let ?h = "sampleDigest (''client_A|purchase|1200|1704067200'')"
  let ?r = "\<lparr>d_eventHash = ?h, d_clientId = ''client_A'', d_eventId = ''id-0-0'',
             d_processedAt = 0, d_createdAt = 0, d_updatedAt = 0\<rparr>"
  have "findOne ?h (sampleStore\<lparr>events := []\<rparr>) = Some ?r"
    by (simp add: findOne_def findDedupRecord_def sampleStore_def sampleDigest_nonempty)
  from processEvent_duplicate [OF normalize_sampleEvent [of "calmAt 5000"], of _ ?r True,
      simplified, OF this]
  show ?thesis
    by (simp add: duplicateOf_def findEventById_def)
qed

text \<open>
  C4, amended. When the payload normalizes to a hash that the identity store holds under
  the id of an event of the record store (an id that is not empty, as every generated id
  is), \<open>processEvent\<close> with \<open>simulateFailure = true\<close> returns that event with
  \<open>isDuplicate = true\<close> and leaves the store as it is: the synthetic failure is not raised.
\<close>

theorem duplicate_before_simulated_failure:
  assumes "normalize rt amb rawEvent = Inr n"
    and "findOne (eventHash n) st = Some r"
    and "d_eventId r \<noteq> []"
    and "findEventById (d_eventId r) st = Some e"
  shows "processEvent rt amb rawEvent True st =
         (Inr \<lparr>success = True, event = Some e, duplicate = True, error = None\<rparr>, st)"
  using processEvent_duplicate [OF assms(1-3), of True] assms(4)
  by (simp add: duplicateOf_def)

text \<open>The sample payload is processed once on an empty store, and again, five seconds later,
  with the simulation flag.\<close>

theorem duplicate_before_simulated_failure_witness:
  "processEvent sampleRuntime (calmAt 0) sampleEvent False emptyStore =
     (Inr \<lparr>success = True, event = Some sampleStored, duplicate = False, error = None\<rparr>,
      sampleStore) \<and>
   processEvent sampleRuntime (calmAt 5000) sampleEvent True sampleStore =
     (Inr \<lparr>success = True, event = Some sampleStored, duplicate = True, error = None\<rparr>,
      sampleStore)"
proof -
  let ?h = "sampleDigest (''client_A|purchase|1200|1704067200'')"
  let ?r = "\<lparr>d_eventHash = ?h, d_clientId = ''client_A'', d_eventId = ''id-0-0'',
             d_processedAt = 0, d_createdAt = 0, d_updatedAt = 0\<rparr>"
  have "findOne ?h sampleStore = Some ?r"
    by (simp add: findOne_def findDedupRecord_def sampleStore_def sampleDigest_nonempty)
  moreover have "findEventById ''id-0-0'' sampleStore = Some sampleStored"
    by (simp add: findEventById_def sampleStore_def sampleStored_def)
  ultimately show ?thesis
    using duplicate_before_simulated_failure
      [OF normalize_sampleEvent [of "calmAt 5000"], of sampleStore ?r sampleStored]
      processEvent_sampleEvent
    by simp
qed

subsection \<open>Batches and the simulated failure\<close>

lemma processEvent_simulated_failure:
  assumes "normalize rt amb rawEvent = Inr n"
    and "duplicateCheck (eventHash n) st = None"
  shows "processEvent rt amb rawEvent True st = (Inl SimulatedFailure, st)"
  using assms by (simp add: processEvent_def)

text \<open>Without the simulation flag every call returns a result, and a batch returns one
  result for each of its payloads.\<close>

lemma processEvent_returns:
  "\<exists>r st'. processEvent rt amb rawEvent False st = (Inr r, st')"
  by (auto simp: processEvent_def split: sum.splits option.splits prod.splits)

lemma processEvents_returns:
  "\<exists>rs st'. processEvents rt env rawEvents False st = (Inr rs, st') \<and>
            length rs = length rawEvents"
proof (induction rawEvents arbitrary: env st)
  case Nil
  show ?case by simp
next
  case (Cons x xs)
  obtain r st1 where 1: "processEvent rt (env 0) x False st = (Inr r, st1)"
    using processEvent_returns by blast
  obtain rs st2
    where 2: "processEvents rt (\<lambda>k. env (Suc k)) xs False st1 = (Inr rs, st2)"
      "length rs = length xs"
    using Cons.IH by blast
  from 1 2 show ?case by simp
qed

text \<open>
  C3 at a failing input. With \<open>simulateFailure = true\<close> the batch of the two sample payloads on
  an empty store does not return a list of results: the first call throws the simulated
  failure, \<open>processEvents\<close> throws it in turn, and the second payload is never processed.
\<close>

theorem processEvents_simulated_failure_aborts:
  "processEvents sampleRuntime (\<lambda>k. calmAt (int k)) [sampleEvent, otherEvent] True emptyStore =
     (Inl SimulatedFailure, emptyStore)"
  by (simp add: normalize_sampleEvent processEvent_def duplicateCheck_def isDuplicate_def
      findOne_def findDedupRecord_def emptyStore_def)

subsection \<open>A refused registration\<close>

text \<open>The branch of step 4 for a refused registration, when a winner exists: the hash is
  registered by the time of the registration (by a request that ran in between), the
  event just written is deleted again and the winner is returned as a duplicate.\<close>

lemma writeAndRegister_race_lost:
  assumes reg: "findOne (eventHash n) st = Some r"
    and idr: "d_eventId r \<noteq> []"
    and win: "findEventById (d_eventId r) st = Some e"
    and calm: "\<And>w. \<not> writeFails amb w"
    and fresh: "randomUUID amb 0 \<notin> ev_id ` set (events st)"
  shows "writeAndRegister amb n raw st = (duplicateOf (Some e), st)"
proof -
  from fresh have keep: "filter (\<lambda>x. ev_id x \<noteq> randomUUID amb 0) (events st) = events st"
    unfolding filter_id_conv by (metis imageI)
  from win have "e \<in> set (events st)" "ev_id e = d_eventId r"
    by (auto simp: findEventById_def find_Some_iff)
  with fresh have other: "d_eventId r \<noteq> randomUUID amb 0"
    by (metis imageI)
  from reg have h: "eventHash n \<noteq> []"
    by (auto simp: findOne_def split: if_splits)
  from reg h have reg': "find (\<lambda>r. d_eventHash r = eventHash n) (dedupRecords st) = Some r"
    by (simp add: findOne_def findDedupRecord_def)
  from win have win': "find (\<lambda>e. ev_id e = d_eventId r) (events st) = Some e"
    by (simp add: findEventById_def)
  show ?thesis
    using keep other h reg' idr win' calm
    by (simp add: pipeline_eval)
qed

text \<open>
  C2 at a failing input. The sample payload is processed on an empty store and the write of
  the identity record fails, so \<open>recordProcessedEvent\<close> answers \<open>false\<close>. The event just
  written is deleted and the lookup finds no winner; the call then returns
  \<open>success = true\<close> with the deleted event and \<open>isDuplicate = false\<close>, and the store is empty.
\<close>

theorem processEvent_race_repair_reports_success:
  "processEvent sampleRuntime ((calmAt 0)\<lparr>writeFails := (\<lambda>w. w = RegisterIdentity)\<rparr>)
       sampleEvent False emptyStore =
     (Inr \<lparr>success = True, event = Some sampleStored, duplicate = False, error = None\<rparr>,
      emptyStore) \<and>
   findEventById (ev_id sampleStored) emptyStore = None"
  by (simp add: normalize_sampleEvent pipeline_eval emptyStore_def sampleStore_def
      sampleStored_def sampleDigest_nonempty calmAt_def decimal.simps)

subsection \<open>Resubmission\<close>

text \<open>The first submission of an unregistered hash, when no write fails: one event and one
  identity record are appended.\<close>

lemma processEvent_first:
  assumes "normalize rt amb raw = Inr n"
    and "eventHash n \<noteq> []"
    and "findDedupRecord (eventHash n) st = None"
    and "\<And>w. \<not> writeFails amb w"
  shows "\<exists>e. processEvent rt amb raw False st =
           (Inr \<lparr>success = True, event = Some e, duplicate = False, error = None\<rparr>,
            st\<lparr>events := events st @ [e],
               dedupRecords := dedupRecords st @
                 [\<lparr>d_eventHash = eventHash n, d_clientId = clientId n, d_eventId = ev_id e,
                   d_processedAt = now amb, d_createdAt = now amb, d_updatedAt = now amb\<rparr>]\<rparr>) \<and>
         ev_id e = randomUUID amb 0 \<and> status e = Processed \<and> eventHash e = eventHash n"
  using assms by (simp add: pipeline_eval)

lemma find_append:
  "find P (xs @ ys) = (case find P xs of None \<Rightarrow> find P ys | Some x \<Rightarrow> Some x)"
  by (induction xs) auto

text \<open>Submissions of a registered hash change nothing and return the registered event.\<close>

lemma processEvents_duplicates:
  assumes "\<And>k. k < M \<Longrightarrow> \<exists>n. normalize rt (env k) raw = Inr n \<and> eventHash n = h"
    and "findOne h st = Some r"
    and "d_eventId r \<noteq> []"
  shows "processEvents rt env (replicate M raw) sim st =
         (Inr (replicate M (duplicateOf (findEventById (d_eventId r) st))), st)"
  using assms
proof (induction M arbitrary: env)
  case 0
  show ?case by simp
next
  case (Suc M)
  from Suc.prems(1) [of 0] obtain n
    where n: "normalize rt (env 0) raw = Inr n" "eventHash n = h" by auto
  from n Suc.prems(2,3)
  have 1: "processEvent rt (env 0) raw sim st =
           (Inr (duplicateOf (findEventById (d_eventId r) st)), st)"
    by (simp add: processEvent_duplicate)
  have "\<And>k. k < M \<Longrightarrow> \<exists>n. normalize rt (env (Suc k)) raw = Inr n \<and> eventHash n = h"
    using Suc.prems(1) by simp
  then have 2: "processEvents rt (\<lambda>k. env (Suc k)) (replicate M raw) sim st =
         (Inr (replicate M (duplicateOf (findEventById (d_eventId r) st))), st)"
    using Suc.prems(2,3) by (rule Suc.IH)
  from 1 2 show ?case by simp
qed

text \<open>
  C1, amended. Let a payload be submitted \<open>N \<ge> 1\<close> times in sequence without the simulation
  flag, let every submission normalize to the same identity hash \<open>h\<close> (a non-empty digest
  that is not registered at the start), let no write of the first submission fail and let
  the id generated for its event be non-empty. Then exactly one record is added to the
  record store, with status \<open>processed\<close> and hash \<open>h\<close>, and one identity record naming it; the
  first submission returns it with \<open>isDuplicate = false\<close>, and every later submission
  returns success with \<open>isDuplicate = true\<close> and the same event id and writes nothing.
\<close>

theorem resubmission_idempotent:
  assumes same: "\<And>k. k < N \<Longrightarrow> \<exists>n. normalize rt (env k) rawEvent = Inr n \<and> eventHash n = h"
    and h: "h \<noteq> []"
    and fresh: "findDedupRecord h st = None"
    and calm: "\<And>w. \<not> writeFails (env 0) w"
    and uuid: "randomUUID (env 0) 0 \<noteq> []"
    and N: "0 < N"
  shows "\<exists>e rs st'.
           processEvents rt env (replicate N rawEvent) False st = (Inr rs, st') \<and>
           length rs = N \<and>
           rs ! 0 = \<lparr>success = True, event = Some e, duplicate = False, error = None\<rparr> \<and>
           (\<forall>k. 0 < k \<and> k < N \<longrightarrow>
              (\<exists>e'. rs ! k = \<lparr>success = True, event = Some e', duplicate = True, error = None\<rparr> \<and>
                    ev_id e' = ev_id e)) \<and>
           events st' = events st @ [e] \<and> status e = Processed \<and> eventHash e = h \<and>
           ev_id e = randomUUID (env 0) 0 \<and>
           (\<exists>r. dedupRecords st' = dedupRecords st @ [r] \<and> d_eventHash r = h \<and>
                d_eventId r = ev_id e)"
proof -
  from N obtain M where M: "N = Suc M" by (cases N) auto
  from same [of 0] N obtain n
    where n: "normalize rt (env 0) rawEvent = Inr n" "eventHash n = h" by auto
  from processEvent_first [OF n(1), of st] n(2) h fresh calm
  obtain e where first0:
    "processEvent rt (env 0) rawEvent False st =
       (Inr \<lparr>success = True, event = Some e, duplicate = False, error = None\<rparr>,
        st\<lparr>events := events st @ [e],
           dedupRecords := dedupRecords st @
             [\<lparr>d_eventHash = eventHash n, d_clientId = clientId n, d_eventId = ev_id e,
               d_processedAt = now (env 0), d_createdAt = now (env 0),
               d_updatedAt = now (env 0)\<rparr>]\<rparr>)"
    and e: "ev_id e = randomUUID (env 0) 0" "status e = Processed" "eventHash e = h"
    by auto
  define r where "r = \<lparr>d_eventHash = eventHash n, d_clientId = clientId n, d_eventId = ev_id e,
               d_processedAt = now (env 0), d_createdAt = now (env 0),
               d_updatedAt = now (env 0)\<rparr>"
  have r: "d_eventHash r = h" "d_eventId r = ev_id e"
    by (simp_all add: r_def n(2))
  have first: "processEvent rt (env 0) rawEvent False st =
       (Inr \<lparr>success = True, event = Some e, duplicate = False, error = None\<rparr>,
        st\<lparr>events := events st @ [e], dedupRecords := dedupRecords st @ [r]\<rparr>)"
    using first0 by (simp add: r_def)
  define st1 where "st1 = st\<lparr>events := events st @ [e], dedupRecords := dedupRecords st @ [r]\<rparr>"
  have reg: "findOne h st1 = Some r"
    using h fresh r(1) by (simp add: st1_def findOne_def findDedupRecord_def find_append)
  have idr: "d_eventId r \<noteq> []" using r(2) e(1) uuid by simp
  have "find (\<lambda>x. ev_id x = ev_id e) (events st @ [e]) \<noteq> None"
    by (auto simp: find_None_iff)
  then obtain e' where e': "findEventById (d_eventId r) st1 = Some e'"
    by (auto simp: st1_def findEventById_def r(2))
  then have ide: "ev_id e' = ev_id e"
    by (auto simp: findEventById_def find_Some_iff r(2))
  have "\<And>k. k < M \<Longrightarrow> \<exists>n. normalize rt (env (Suc k)) rawEvent = Inr n \<and> eventHash n = h"
    using same M by simp
  then have rest: "processEvents rt (\<lambda>k. env (Suc k)) (replicate M rawEvent) False st1 =
      (Inr (replicate M (duplicateOf (findEventById (d_eventId r) st1))), st1)"
    using reg idr by (rule processEvents_duplicates)
  let ?rs = "\<lparr>success = True, event = Some e, duplicate = False, error = None\<rparr> #
             replicate M (duplicateOf (Some e'))"
  have run: "processEvents rt env (replicate N rawEvent) False st = (Inr ?rs, st1)"
    using first rest e' by (simp add: M st1_def)
  have later: "\<exists>e''. ?rs ! k = \<lparr>success = True, event = Some e'', duplicate = True, error = None\<rparr> \<and>
                     ev_id e'' = ev_id e" if "0 < k \<and> k < N" for k
    using that ide by (cases k) (auto simp: M duplicateOf_def)
  from run later e r show ?thesis
    by (intro exI [of _ e] exI [of _ ?rs] exI [of _ st1]) (auto simp: M st1_def)
qed


lemma normalize_bareEvent:
  "normalize sampleRuntime amb bareEvent =
     Inr \<lparr>clientId = ''client_A'', metric = ''unknown'', amount = 1, timestamp = now amb,
          eventHash = sampleDigest (''client_A|unknown|1|'' @ decimal (nat (now amb div 1000)))\<rparr>"
  by (simp add: bareEvent_def normalize_eval sampleRuntime_def decimal.simps)

lemma hd_sampleDigest:
  "s \<noteq> [] \<Longrightarrow> hd (sampleDigest s) = ''0123456789abcdef'' ! (of_char (last s) mod 16)"
  by (cases s rule: rev_cases) (simp_all add: sampleDigest_def)

lemma digests_differ:
  "sampleDigest ''client_A|unknown|1|0'' \<noteq> sampleDigest ''client_A|unknown|1|1''"
proof
  assume "sampleDigest ''client_A|unknown|1|0'' = sampleDigest ''client_A|unknown|1|1''"
  then have "hd (sampleDigest ''client_A|unknown|1|0'') = hd (sampleDigest ''client_A|unknown|1|1'')"
    by simp
  then show False by (simp add: hd_sampleDigest)
qed

text \<open>
  C1 as stated fails. The payload \<^verbatim>\<open>{"source": "client_A", "amount": 1}\<close> normalizes
  successfully; it has no timestamp, so the timestamp is the clock of the submission and
  enters the hash. Submitted twice, one second apart, it yields two \<open>processed\<close> records,
  and the second submission is not reported as a duplicate.
\<close>

theorem resubmission_counterexample:
  "(\<exists>n. normalize sampleRuntime (calmAt 0) bareEvent = Inr n) \<and>
   (\<exists>r1 r2 st'.
      processEvents sampleRuntime (\<lambda>k. calmAt (1000 * int k)) [bareEvent, bareEvent] False
        emptyStore = (Inr [r1, r2], st') \<and>
      success r2 \<and> \<not> duplicate r2 \<and> event r1 \<noteq> event r2 \<and>
      length (filter (\<lambda>e. status e = Processed) (events st')) = 2)"
  using digests_differ
  by (simp add: normalize_bareEvent pipeline_eval emptyStore_def sampleDigest_nonempty
      calmAt_def decimal.simps)

text \<open>Three submissions of the sample payload, one second apart, on an empty store.\<close>

theorem resubmission_idempotent_witness:
  "\<exists>e rs st'.
     processEvents sampleRuntime (\<lambda>k. calmAt (1000 * int k)) (replicate 3 sampleEvent) False
       emptyStore = (Inr rs, st') \<and>
     length rs = 3 \<and>
     rs ! 0 = \<lparr>success = True, event = Some e, duplicate = False, error = None\<rparr> \<and>
     (\<forall>k. 0 < k \<and> k < 3 \<longrightarrow>
        (\<exists>e'. rs ! k = \<lparr>success = True, event = Some e', duplicate = True, error = None\<rparr> \<and>
              ev_id e' = ev_id e)) \<and>
     events st' = [e] \<and> status e = Processed \<and> ev_id e = ''id-0-0''"
proof -
  let ?h = "sampleDigest (''client_A|purchase|1200|1704067200'')"
  have "\<exists>n. normalize sampleRuntime (calmAt (1000 * int k)) sampleEvent = Inr n \<and> eventHash n = ?h"
    for k by (simp add: normalize_sampleEvent)
  moreover have "?h \<noteq> []" by (rule sampleDigest_nonempty)
  moreover have "findDedupRecord ?h emptyStore = None"
    by (simp add: findDedupRecord_def emptyStore_def)
  moreover have "\<not> writeFails (calmAt (1000 * int 0)) w" for w
    by (simp add: calmAt_def)
  moreover have "randomUUID (calmAt (1000 * int 0)) 0 \<noteq> []"
    by (simp add: calmAt_def)
  ultimately have "\<exists>e rs st'.
           processEvents sampleRuntime (\<lambda>k. calmAt (1000 * int k)) (replicate 3 sampleEvent) False emptyStore = (Inr rs, st') \<and>
           length rs = 3 \<and>
           rs ! 0 = \<lparr>success = True, event = Some e, duplicate = False, error = None\<rparr> \<and>
           (\<forall>k. 0 < k \<and> k < 3 \<longrightarrow>
              (\<exists>e'. rs ! k = \<lparr>success = True, event = Some e', duplicate = True, error = None\<rparr> \<and>
                    ev_id e' = ev_id e)) \<and>
           events st' = events emptyStore @ [e] \<and> status e = Processed \<and> eventHash e = ?h \<and>
           ev_id e = randomUUID (calmAt (1000 * int 0)) 0 \<and>
           (\<exists>r. dedupRecords st' = dedupRecords emptyStore @ [r] \<and> d_eventHash r = ?h \<and>
                d_eventId r = ev_id e)"
    by (intro resubmission_idempotent) simp_all
  then show ?thesis
    by (simp add: emptyStore_def calmAt_def decimal.simps) blast
qed


text \<open>A payload in which a timestamp field parses normalizes to the same fields, and so to
  the same hash, whatever the clock shows.\<close>

lemma extractTimestamp_found:
  "scanTimestamp rt p timestampFields = Some t \<Longrightarrow> extractTimestamp rt clock p = t"
  by (subst extractTimestamp.simps) simp

lemma normalize_clock_irrelevant:
  "scanTimestamp rt (payloadOf raw) timestampFields = Some t \<Longrightarrow>
   normalize rt amb raw = normalize rt amb' raw"
  by (simp add: normalize_def Let_def extractTimestamp_found split: sum.splits)

subsection \<open>The hash of a rejected record\<close>

lemma append_separator_unique:
  assumes "c \<notin> set a" and "c \<notin> set a'"
  shows "(a @ c # r = a' @ c # r') = (a = a' \<and> r = r')"
proof
  assume eq: "a @ c # r = a' @ c # r'"
  from assms(1) have "takeWhile (\<lambda>x. x \<noteq> c) (a @ c # r) = a"
    by (subst takeWhile_append2) auto
  moreover from assms(2) have "takeWhile (\<lambda>x. x \<noteq> c) (a' @ c # r') = a'"
    by (subst takeWhile_append2) auto
  ultimately have "a = a'" using eq by simp
  with eq show "a = a' \<and> r = r'" by simp
qed simp

lemma rejectedHash_not_digest:
  assumes "set (sha256 rt s) \<subseteq> set ''0123456789abcdef''"
  shows "rejectedHash rt amb \<noteq> sha256 rt s"
proof
  assume "rejectedHash rt amb = sha256 rt s"
  then have "CHR ''r'' \<in> set (sha256 rt s)"
    by (simp add: rejectedHash_def) (metis list.set_intros(1))
  with assms show False by auto
qed

lemma rejectedHash_eq:
  assumes "CHR ''_'' \<notin> set (Number_toString rt (of_int (now a1)))"
    and "CHR ''_'' \<notin> set (Number_toString rt (of_int (now a2)))"
  shows "(rejectedHash rt a1 = rejectedHash rt a2) =
         (Number_toString rt (of_int (now a1)) = Number_toString rt (of_int (now a2)) \<and>
          Number_toString rt (random a1) = Number_toString rt (random a2))"
  using append_separator_unique [OF assms]
  by (simp add: rejectedHash_def)

lemma processEvent_rejected:
  assumes "normalize rt amb raw = Inl x" and "\<not> writeFails amb SaveEvent"
  shows "\<exists>e. processEvent rt amb raw sim st =
           (Inr \<lparr>success = False, event = Some e, duplicate = False, error = Some (message x)\<rparr>,
            st\<lparr>events := events st @ [e]\<rparr>) \<and>
         status e = Rejected \<and> eventHash e = rejectedHash rt amb \<and>
         ev_id e = randomUUID amb 0 \<and> rejectionReason e = Some (message x)"
  using assms by (simp add: pipeline_eval)

lemma normalize_eventHash:
  "normalize rt amb raw = Inr n \<Longrightarrow>
   eventHash n = generateEventHash rt
     \<lparr>clientId = clientId n, metric = metric n, amount = amount n, timestamp = timestamp n\<rparr>"
  by (auto simp: normalize_def Let_def split: if_splits sum.splits)

lemma sampleDigest_hex: "set (sampleDigest s) \<subseteq> set ''0123456789abcdef''"
proof -
  have "''0123456789abcdef'' ! (n mod 16) \<in> set ''0123456789abcdef''" for n :: nat
    by (rule nth_mem) simp
  moreover have "CHR ''0'' \<in> set ''0123456789abcdef''"
    by simp
  ultimately show ?thesis
    unfolding sampleDigest_def by (auto simp del: set_simps dest: in_set_takeD)
qed


lemma normalize_noAmountEvent: "normalize rt amb noAmountEvent = Inl AmountNotFound"
  by (simp add: noAmountEvent_def normalize_eval)

lemma normalize_noClientEvent: "normalize rt amb noClientEvent = Inl ClientIdNotFound"
  by (simp add: noClientEvent_def normalize_eval)

text \<open>
  C5, amended. Let two payloads fail normalization and let the rejected records be saved.
  The hash of each record is the text \<^verbatim>\<open>rejected_<Date.now()>_<Math.random()>\<close> of its own
  attempt; the payload does not enter it. For a digest that renders in hexadecimal it
  differs from the identity hash of every payload that normalizes, and, the clock's
  rendering containing no underscore, the two hashes are equal exactly when the clock
  readings render alike and the random draws render alike.
\<close>

theorem rejected_hash_rule:
  assumes f1: "normalize rt a1 p1 = Inl x1" and f2: "normalize rt a2 p2 = Inl x2"
    and w1: "\<not> writeFails a1 SaveEvent" and w2: "\<not> writeFails a2 SaveEvent"
    and hex: "\<And>s. set (sha256 rt s) \<subseteq> set ''0123456789abcdef''"
    and u1: "CHR ''_'' \<notin> set (Number_toString rt (of_int (now a1)))"
    and u2: "CHR ''_'' \<notin> set (Number_toString rt (of_int (now a2)))"
  shows "\<exists>e1 e2 st1' st2'.
     processEvent rt a1 p1 sim1 st1 =
       (Inr \<lparr>success = False, event = Some e1, duplicate = False,
             error = Some (message x1)\<rparr>, st1') \<and>
     processEvent rt a2 p2 sim2 st2 =
       (Inr \<lparr>success = False, event = Some e2, duplicate = False,
             error = Some (message x2)\<rparr>, st2') \<and>
     events st1' = events st1 @ [e1] \<and> events st2' = events st2 @ [e2] \<and>
     status e1 = Rejected \<and> status e2 = Rejected \<and>
     eventHash e1 = rejectedHash rt a1 \<and> eventHash e2 = rejectedHash rt a2 \<and>
     (\<forall>amb raw n. normalize rt amb raw = Inr n \<longrightarrow>
        eventHash n \<noteq> eventHash e1 \<and> eventHash n \<noteq> eventHash e2) \<and>
     (eventHash e1 = eventHash e2) =
       (Number_toString rt (of_int (now a1)) = Number_toString rt (of_int (now a2)) \<and>
        Number_toString rt (random a1) = Number_toString rt (random a2))"
proof -
  from processEvent_rejected [OF f1 w1, of sim1 st1] obtain e1
    where e1: "processEvent rt a1 p1 sim1 st1 =
           (Inr \<lparr>success = False, event = Some e1, duplicate = False, error = Some (message x1)\<rparr>,
            st1\<lparr>events := events st1 @ [e1]\<rparr>)"
      "status e1 = Rejected" "eventHash e1 = rejectedHash rt a1"
    by blast
  from processEvent_rejected [OF f2 w2, of sim2 st2] obtain e2
    where e2: "processEvent rt a2 p2 sim2 st2 =
           (Inr \<lparr>success = False, event = Some e2, duplicate = False, error = Some (message x2)\<rparr>,
            st2\<lparr>events := events st2 @ [e2]\<rparr>)"
      "status e2 = Rejected" "eventHash e2 = rejectedHash rt a2"
    by blast
  have valid: "eventHash n \<noteq> rejectedHash rt a" if "normalize rt amb raw = Inr n" for amb raw n a
    using normalize_eventHash [OF that] rejectedHash_not_digest [OF hex, of a]
    by (metis generateEventHash_def)
  have same: "(rejectedHash rt a1 = rejectedHash rt a2) =
       (Number_toString rt (of_int (now a1)) = Number_toString rt (of_int (now a2)) \<and>
        Number_toString rt (random a1) = Number_toString rt (random a2))"
    using u1 u2 by (rule rejectedHash_eq)
  show ?thesis
    using e1 e2 valid same
    by (intro exI [of _ e1] exI [of _ e2] exI [of _ "st1\<lparr>events := events st1 @ [e1]\<rparr>"]
          exI [of _ "st2\<lparr>events := events st2 @ [e2]\<rparr>"]) simp
qed

text \<open>Two payloads rejected one millisecond apart: the hashes differ from each other and from
  the hash of the stored sample event.\<close>

theorem rejected_hash_rule_witness:
  "\<exists>e1 e2 st1' st2'.
     processEvent sampleRuntime (calmAt 0) noAmountEvent False emptyStore =
       (Inr \<lparr>success = False, event = Some e1, duplicate = False,
             error = Some ''amount not found or invalid in event''\<rparr>, st1') \<and>
     processEvent sampleRuntime (calmAt 1) noClientEvent False st1' =
       (Inr \<lparr>success = False, event = Some e2, duplicate = False,
             error = Some ''client_id not found in event''\<rparr>, st2') \<and>
     events st2' = [e1, e2] \<and> status e1 = Rejected \<and> status e2 = Rejected \<and>
     eventHash e1 = ''rejected_0_0'' \<and> eventHash e2 = ''rejected_1_0'' \<and>
     eventHash sampleStored \<noteq> eventHash e1 \<and> eventHash sampleStored \<noteq> eventHash e2"
proof -
  let ?st1 = "snd (processEvent sampleRuntime (calmAt 0) noAmountEvent False emptyStore)"
  have hex: "\<And>s. set (sha256 sampleRuntime s) \<subseteq> set ''0123456789abcdef''"
    by (simp add: sampleRuntime_def sampleDigest_hex del: set_simps)
  have u1: "CHR ''_'' \<notin> set (Number_toString sampleRuntime (of_int (now (calmAt 0))))"
    by (simp add: sampleRuntime_def calmAt_def decimal.simps)
  have u2: "CHR ''_'' \<notin> set (Number_toString sampleRuntime (of_int (now (calmAt 1))))"
    by (simp add: sampleRuntime_def calmAt_def decimal.simps)
  have w: "\<not> writeFails (calmAt t) SaveEvent" for t
    by (simp add: calmAt_def)
  from rejected_hash_rule [OF normalize_noAmountEvent normalize_noClientEvent w w hex u1 u2,
      of False emptyStore False ?st1]
  obtain e1 e2 st1' st2' where r:
    "processEvent sampleRuntime (calmAt 0) noAmountEvent False emptyStore =
       (Inr \<lparr>success = False, event = Some e1, duplicate = False,
             error = Some (message AmountNotFound)\<rparr>, st1')"
    "processEvent sampleRuntime (calmAt 1) noClientEvent False ?st1 =
       (Inr \<lparr>success = False, event = Some e2, duplicate = False,
             error = Some (message ClientIdNotFound)\<rparr>, st2')"
    "events st1' = events emptyStore @ [e1]" "events st2' = events ?st1 @ [e2]"
    "status e1 = Rejected" "status e2 = Rejected"
    "eventHash e1 = rejectedHash sampleRuntime (calmAt 0)"
    "eventHash e2 = rejectedHash sampleRuntime (calmAt 1)"
    "\<forall>amb raw n. normalize sampleRuntime amb raw = Inr n \<longrightarrow>
        eventHash n \<noteq> eventHash e1 \<and> eventHash n \<noteq> eventHash e2"
    by blast
  from r(9) [rule_format, OF normalize_sampleEvent [of "calmAt 0"]]
  have "eventHash sampleStored \<noteq> eventHash e1 \<and> eventHash sampleStored \<noteq> eventHash e2"
    by (simp add: sampleStored_def)
  moreover have "rejectedHash sampleRuntime (calmAt 0) = ''rejected_0_0''"
    by (simp add: rejectedHash_def sampleRuntime_def calmAt_def decimal.simps)
  moreover have "rejectedHash sampleRuntime (calmAt 1) = ''rejected_1_0''"
    by (simp add: rejectedHash_def sampleRuntime_def calmAt_def decimal.simps)
  ultimately show ?thesis
    using r by (intro exI [of _ e1] exI [of _ e2] exI [of _ st1'] exI [of _ st2'])
      (simp add: emptyStore_def)
qed

text \<open>
  C5 as stated fails. Two different payloads that fail normalization, processed one after
  the other by calls that read the same clock value and draw the same random number, leave
  two rejected records with the same hash.
\<close>

theorem rejected_hash_counterexample:
  "noAmountEvent \<noteq> noClientEvent \<and>
   (\<exists>e1 e2 st1 st2.
      processEvent sampleRuntime (calmAt 0) noAmountEvent False emptyStore =
        (Inr \<lparr>success = False, event = Some e1, duplicate = False,
              error = Some ''amount not found or invalid in event''\<rparr>, st1) \<and>
      processEvent sampleRuntime ((calmAt 0)\<lparr>randomUUID := (\<lambda>k. ''id-0-1'')\<rparr>) noClientEvent
          False st1 =
        (Inr \<lparr>success = False, event = Some e2, duplicate = False,
              error = Some ''client_id not found in event''\<rparr>, st2) \<and>
      events st2 = [e1, e2] \<and> status e1 = Rejected \<and> status e2 = Rejected \<and>
      ev_id e1 \<noteq> ev_id e2 \<and> eventHash e1 = eventHash e2)"
proof -
  let ?a2 = "(calmAt 0)\<lparr>randomUUID := (\<lambda>k. ''id-0-1'')\<rparr>"
  have w1: "\<not> writeFails (calmAt 0) SaveEvent" and w2: "\<not> writeFails ?a2 SaveEvent"
    by (simp_all add: calmAt_def)
  from processEvent_rejected [OF normalize_noAmountEvent w1, of sampleRuntime False emptyStore]
  obtain e1 where e1:
    "processEvent sampleRuntime (calmAt 0) noAmountEvent False emptyStore =
       (Inr \<lparr>success = False, event = Some e1, duplicate = False,
             error = Some (message AmountNotFound)\<rparr>,
        emptyStore\<lparr>events := events emptyStore @ [e1]\<rparr>)"
    "status e1 = Rejected" "eventHash e1 = rejectedHash sampleRuntime (calmAt 0)"
    "ev_id e1 = randomUUID (calmAt 0) 0"
    by blast
  let ?st1 = "emptyStore\<lparr>events := events emptyStore @ [e1]\<rparr>"
  from processEvent_rejected [OF normalize_noClientEvent w2, of sampleRuntime False ?st1]
  obtain e2 where e2:
    "processEvent sampleRuntime ?a2 noClientEvent False ?st1 =
       (Inr \<lparr>success = False, event = Some e2, duplicate = False,
             error = Some (message ClientIdNotFound)\<rparr>,
        ?st1\<lparr>events := events ?st1 @ [e2]\<rparr>)"
    "status e2 = Rejected" "eventHash e2 = rejectedHash sampleRuntime ?a2"
    "ev_id e2 = randomUUID ?a2 0"
    by blast
  have "rejectedHash sampleRuntime (calmAt 0) = rejectedHash sampleRuntime ?a2"
    by (simp add: rejectedHash_def calmAt_def)
  moreover have "randomUUID (calmAt 0) 0 \<noteq> randomUUID ?a2 0"
    by (simp add: calmAt_def decimal.simps)
  moreover have "noAmountEvent \<noteq> noClientEvent"
    by (simp add: noAmountEvent_def noClientEvent_def)
  ultimately show ?thesis
    using e1 e2
    by (intro conjI exI [of _ e1] exI [of _ e2] exI [of _ ?st1]
          exI [of _ "?st1\<lparr>events := events ?st1 @ [e2]\<rparr>"])
       (simp_all add: emptyStore_def)
qed

subsection \<open>The identity hash does not separate the fields\<close>

lemma colliding_payloads_conflated:
  "\<exists>e st'.
     processEvents sampleRuntime (\<lambda>k. calmAt (int k))
       [JObj [(''source'', JStr ''a|b''), (''metric'', JStr ''c''), (''amount'', JNum 1),
              (''timestamp'', JNum 0)],
        JObj [(''source'', JStr ''a''), (''metric'', JStr ''b|c''), (''amount'', JNum 1),
              (''timestamp'', JNum 0)]] False emptyStore =
       (Inr [\<lparr>success = True, event = Some e, duplicate = False, error = None\<rparr>,
             \<lparr>success = True, event = Some e, duplicate = True, error = None\<rparr>], st') \<and>
     clientId e = ''a|b'' \<and> metric e = ''c'' \<and> events st' = [e]"
  by (simp add: normalize_eval pipeline_eval sampleRuntime_def calmAt_def emptyStore_def
      sampleDigest_nonempty decimal.simps)

lemma colliding_payloads_normalize:
  "\<exists>n1 n2.
      normalize rt amb
        (JObj [(''source'', JStr ''a|b''), (''metric'', JStr ''c''), (''amount'', JNum 1),
               (''timestamp'', JNum 0)]) = Inr n1 \<and>
      normalize rt amb
        (JObj [(''source'', JStr ''a''), (''metric'', JStr ''b|c''), (''amount'', JNum 1),
               (''timestamp'', JNum 0)]) = Inr n2 \<and>
      clientId n1 \<noteq> clientId n2 \<and> metric n1 \<noteq> metric n2 \<and> eventHash n1 = eventHash n2"
  by (simp add: normalize_eval)

text \<open>
  C10. \<open>generateEventHash\<close> is not injective on canonical tuples: client \<open>a|b\<close> with metric \<open>c\<close>
  and client \<open>a\<close> with metric \<open>b|c\<close>, with the same amount and timestamp, are different tuples
  with the same pipe-joined hash input, hence the same identity hash under every digest,
  and \<open>isDuplicate\<close> answers the same for both in every store. Two payloads normalize to
  these tuples, and when they are submitted one after the other the second is returned as
  a duplicate of the first and is not stored.
\<close>

theorem generateEventHash_not_injective:
  "\<lparr>clientId = ''a|b'', metric = ''c'', amount = x, timestamp = t\<rparr> \<noteq>
     \<lparr>clientId = ''a'', metric = ''b|c'', amount = x, timestamp = t\<rparr> \<and>
   hashInput rt \<lparr>clientId = ''a|b'', metric = ''c'', amount = x, timestamp = t\<rparr> =
     hashInput rt \<lparr>clientId = ''a'', metric = ''b|c'', amount = x, timestamp = t\<rparr> \<and>
   generateEventHash rt \<lparr>clientId = ''a|b'', metric = ''c'', amount = x, timestamp = t\<rparr> =
     generateEventHash rt \<lparr>clientId = ''a'', metric = ''b|c'', amount = x, timestamp = t\<rparr> \<and>
   isDuplicate
       (generateEventHash rt \<lparr>clientId = ''a'', metric = ''b|c'', amount = x, timestamp = t\<rparr>) st =
     isDuplicate
       (generateEventHash rt \<lparr>clientId = ''a|b'', metric = ''c'', amount = x, timestamp = t\<rparr>) st \<and>
   (\<exists>n1 n2.
      normalize rt amb
        (JObj [(''source'', JStr ''a|b''), (''metric'', JStr ''c''), (''amount'', JNum 1),
               (''timestamp'', JNum 0)]) = Inr n1 \<and>
      normalize rt amb
        (JObj [(''source'', JStr ''a''), (''metric'', JStr ''b|c''), (''amount'', JNum 1),
               (''timestamp'', JNum 0)]) = Inr n2 \<and>
      clientId n1 \<noteq> clientId n2 \<and> metric n1 \<noteq> metric n2 \<and> eventHash n1 = eventHash n2) \<and>
   (\<exists>e st'.
      processEvents sampleRuntime (\<lambda>k. calmAt (int k))
        [JObj [(''source'', JStr ''a|b''), (''metric'', JStr ''c''), (''amount'', JNum 1),
               (''timestamp'', JNum 0)],
         JObj [(''source'', JStr ''a''), (''metric'', JStr ''b|c''), (''amount'', JNum 1),
               (''timestamp'', JNum 0)]] False emptyStore =
        (Inr [\<lparr>success = True, event = Some e, duplicate = False, error = None\<rparr>,
              \<lparr>success = True, event = Some e, duplicate = True, error = None\<rparr>], st') \<and>
      clientId e = ''a|b'' \<and> metric e = ''c'' \<and> events st' = [e])"
proof -
  have "hashInput rt \<lparr>clientId = ''a|b'', metric = ''c'', amount = x, timestamp = t\<rparr> =
        hashInput rt \<lparr>clientId = ''a'', metric = ''b|c'', amount = x, timestamp = t\<rparr>"
    by (simp add: hashInput_def)
  then show ?thesis
    using colliding_payloads_normalize [of rt amb] colliding_payloads_conflated
    by (simp add: generateEventHash_def)
qed

end
